theory Spec2Isabelle
  imports Complex_Main
begin

section \<open>JavaScript values\<close>

text \<open>
  The handlers of the Shop API revisions (\<^verbatim>\<open>src/app.js\<close>, \<^verbatim>\<open>src/unnamed/part_000\<close> to
  \<^verbatim>\<open>part_003\<close>; \<^verbatim>\<open>part_002\<close> holds two revisions, called p002a and p002b below) read JSON
  bodies and query strings, so the values they see are dynamically typed. A number is an
  IEEE double: only its comparison with zero is used, so a finite double is represented by
  the real number it denotes, beside the three special values.
\<close>

datatype jsnum = Fin real | PosInf | NegInf | NaN

datatype oid = Oid string

datatype jsval =
    JUndefined
  | JNull
  | JBool bool
  | JNum jsnum
  | JStr string
  | JArr "jsval list"
  | JObj "(string \<times> jsval) list"
  | JOid oid
  | JDate nat

type_synonym obj = "(string \<times> jsval) list"

datatype js_error = TypeError | StoreError

text \<open>\<^verbatim>\<open>if (v)\<close> and \<^verbatim>\<open>!v\<close>: ToBoolean.\<close>

fun truthy :: "jsval \<Rightarrow> bool" where
  "truthy JUndefined = False"
| "truthy JNull = False"
| "truthy (JBool b) = b"
| "truthy (JNum n) = (n \<noteq> Fin 0 \<and> n \<noteq> NaN)"
| "truthy (JStr s) = (s \<noteq> [])"
| "truthy (JArr _) = True"
| "truthy (JObj _) = True"
| "truthy (JOid _) = True"
| "truthy (JDate _) = True"

fun typeof :: "jsval \<Rightarrow> string" where
  "typeof JUndefined = ''undefined''"
| "typeof JNull = ''object''"
| "typeof (JBool _) = ''boolean''"
| "typeof (JNum _) = ''number''"
| "typeof (JStr _) = ''string''"
| "typeof (JArr _) = ''object''"
| "typeof (JObj _) = ''object''"
| "typeof (JOid _) = ''object''"
| "typeof (JDate _) = ''object''"

text \<open>\<^verbatim>\<open>a < b\<close> on two numbers; every comparison with NaN is false.\<close>

fun num_lt :: "jsnum \<Rightarrow> jsnum \<Rightarrow> bool" where
  "num_lt NaN _ = False"
| "num_lt _ NaN = False"
| "num_lt (Fin a) (Fin b) = (a < b)"
| "num_lt (Fin _) PosInf = True"
| "num_lt (Fin _) NegInf = False"
| "num_lt PosInf _ = False"
| "num_lt NegInf NegInf = False"
| "num_lt NegInf _ = True"

text \<open>\<^verbatim>\<open>v < 0\<close>, which the handlers evaluate only after \<^verbatim>\<open>typeof v === "number"\<close>.\<close>

definition lt_zero :: "jsval \<Rightarrow> bool" where
  "lt_zero v = (case v of JNum p \<Rightarrow> num_lt p (Fin 0) | _ \<Rightarrow> False)"

text \<open>Reading a property of an object: \<^verbatim>\<open>undefined\<close> when the key is absent.\<close>

definition get_prop :: "obj \<Rightarrow> string \<Rightarrow> jsval" where
  "get_prop ob k = (case map_of ob k of None \<Rightarrow> JUndefined | Some v \<Rightarrow> v)"

text \<open>
  Writing an own property: the key keeps its place when it exists, else it is appended.
  (JavaScript lists integer-like keys before the others; the order of keys is not used
  below, objects are compared through \<open>map_of\<close> or are object literals of the source.)
\<close>

fun assign :: "obj \<Rightarrow> string \<Rightarrow> jsval \<Rightarrow> obj" where
  "assign [] k v = [(k, v)]"
| "assign ((k', v') # kvs) k v =
     (if k' = k then (k, v) # kvs else (k', v') # assign kvs k v)"

text \<open>
  \<^verbatim>\<open>String.prototype.trim\<close>. A string is the sequence of bytes of its UTF-8 encoding, so the
  white space and line terminator code points that \<^verbatim>\<open>trim\<close> removes are byte sequences:
  U+0009 to U+000D and U+0020 (one byte), U+00A0 (two bytes), U+1680, U+2000 to U+200A,
  U+2028, U+2029, U+202F, U+205F, U+3000 and U+FEFF (three bytes). \<open>strip\<close> removes such
  sequences from the front for as long as there is one; \<open>trim\<close> does so at both ends.
\<close>

definition white_space :: "string list" where
  "white_space =
     [[CHR 0x09], [CHR 0x0A], [CHR 0x0B], [CHR 0x0C], [CHR 0x0D], [CHR 0x20],
      [CHR 0xC2, CHR 0xA0], [CHR 0xE1, CHR 0x9A, CHR 0x80],
      [CHR 0xE2, CHR 0x80, CHR 0x80], [CHR 0xE2, CHR 0x80, CHR 0x81],
      [CHR 0xE2, CHR 0x80, CHR 0x82], [CHR 0xE2, CHR 0x80, CHR 0x83],
      [CHR 0xE2, CHR 0x80, CHR 0x84], [CHR 0xE2, CHR 0x80, CHR 0x85],
      [CHR 0xE2, CHR 0x80, CHR 0x86], [CHR 0xE2, CHR 0x80, CHR 0x87],
      [CHR 0xE2, CHR 0x80, CHR 0x88], [CHR 0xE2, CHR 0x80, CHR 0x89],
      [CHR 0xE2, CHR 0x80, CHR 0x8A], [CHR 0xE2, CHR 0x80, CHR 0xA8],
      [CHR 0xE2, CHR 0x80, CHR 0xA9], [CHR 0xE2, CHR 0x80, CHR 0xAF],
      [CHR 0xE2, CHR 0x81, CHR 0x9F], [CHR 0xE3, CHR 0x80, CHR 0x80],
      [CHR 0xEF, CHR 0xBB, CHR 0xBF]]"

function strip :: "string list \<Rightarrow> string \<Rightarrow> string" where
  "strip ts s =
     (case find (\<lambda>t. t \<noteq> [] \<and> take (length t) s = t) ts of
        None \<Rightarrow> s
      | Some t \<Rightarrow> strip ts (drop (length t) s))"
  by pat_completeness auto
termination
proof (relation "measure (\<lambda>(ts, s). length s)")
  show "wf (measure (\<lambda>(ts, s). length s))" by simp
next
  fix ts :: "string list" and s t :: string
  assume "find (\<lambda>t. t \<noteq> [] \<and> take (length t) s = t) ts = Some t"
  then have t: "t \<noteq> []" "take (length t) s = t"
    by (auto simp: find_Some_iff)
  have "length (take (length t) s) \<le> length s"
    by simp
  with t(2) have "length t \<le> length s"
    by simp
  with t(1) have "length (drop (length t) s) < length s"
    by (cases t) auto
  then show "((ts, drop (length t) s), (ts, s)) \<in> measure (\<lambda>(ts, s). length s)"
    by simp
qed

declare strip.simps [simp del]

definition trim :: "string \<Rightarrow> string" where
  "trim s = rev (strip (map rev white_space) (rev (strip white_space s)))"

text \<open>The one-byte white space characters.\<close>

definition is_space :: "char \<Rightarrow> bool" where
  "is_space c = (c \<in> set [CHR 0x09, CHR 0x0A, CHR 0x0B, CHR 0x0C, CHR 0x0D, CHR '' ''])"

text \<open>
  \<^verbatim>\<open>v.trim()\<close> on a value that passed a truthiness test: a string is trimmed, every other
  truthy value has no \<^verbatim>\<open>trim\<close> method and the call throws a TypeError.
\<close>

definition call_trim :: "jsval \<Rightarrow> js_error + jsval" where
  "call_trim v = (case v of JStr s \<Rightarrow> Inr (JStr (trim s)) | _ \<Rightarrow> Inl TypeError)"

text \<open>\<^verbatim>\<open>s.split(",")\<close>: the pieces between commas; the empty string gives one empty piece.\<close>

fun split_comma :: "string \<Rightarrow> string list" where
  "split_comma [] = [[]]"
| "split_comma (c # cs) =
     (if c = CHR '','' then [] # split_comma cs
      else (case split_comma cs of [] \<Rightarrow> [[c]] | p # ps \<Rightarrow> (c # p) # ps))"

section \<open>Environment, requests, responses\<close>

text \<open>
  What a handler takes from outside the repository is a parameter: the driver's
  \<^verbatim>\<open>ObjectId.isValid\<close> and \<^verbatim>\<open>new ObjectId\<close>, the built-in \<^verbatim>\<open>Number\<close> conversion, the
  configured \<^verbatim>\<open>process.env.API_KEY\<close> and the clock read by \<^verbatim>\<open>new Date()\<close>.
\<close>

record env =
  isValid :: "string \<Rightarrow> bool"
  ObjectId :: "string \<Rightarrow> oid"
  Number :: "jsval \<Rightarrow> jsnum"
  API_KEY :: "string option"
  now :: nat

text \<open>
  A decoded request: \<^verbatim>\<open>req.params.id\<close>, \<^verbatim>\<open>req.query\<close>, \<^verbatim>\<open>req.body\<close> and
  \<^verbatim>\<open>req.headers["x-api-key"]\<close> (a string, or absent). \<^verbatim>\<open>express.json()\<close> leaves in
  \<^verbatim>\<open>req.body\<close> the JSON object or array it parsed (the keys of an object are distinct, since
  \<^verbatim>\<open>JSON.parse\<close> keeps one value per key); for a request without a JSON body the body is the
  empty object under Express 4 and \<^verbatim>\<open>undefined\<close> under Express 5. A query value is a string
  for \<^verbatim>\<open>?k=v\<close>, and the query parser gives an array or an object for repeated or bracketed
  keys.
\<close>

record request =
  params_id :: string
  query :: obj
  body :: jsval
  x_api_key :: "string option"

text \<open>
  A handler either sends a response (status and JSON body) or its promise rejects with an
  error nobody caught, which leaves the handler.
\<close>

datatype outcome = Response nat jsval | Unhandled js_error

definition error_body :: "string \<Rightarrow> jsval" where
  "error_body msg = JObj [(''error'', JStr msg)]"

definition message_body :: "string \<Rightarrow> jsval" where
  "message_body msg = JObj [(''message'', JStr msg)]"

section \<open>The query translator of GET /api/products\<close>

text \<open>
  \<^verbatim>\<open>src/app.js\<close> 71-96, \<^verbatim>\<open>part_003\<close> 77-102, \<^verbatim>\<open>part_000\<close> 54-71. The loop
  \<^verbatim>\<open>fields.split(",").forEach(field => { projection[field] = 1; })\<close> writes computed keys:
  writing the number 1 under the key \<^verbatim>\<open>__proto__\<close> goes to the inherited setter, which ignores
  a value that is not an object, so that piece adds no key.
\<close>

fun projection_loop :: "string list \<Rightarrow> obj \<Rightarrow> obj" where
  "projection_loop [] projection = projection"
| "projection_loop (field # rest) projection =
     projection_loop rest
       (if field = ''__proto__'' then projection else assign projection field (JNum (Fin 1)))"

text \<open>The three documents handed to \<^verbatim>\<open>find(filter, { projection }).sort(sortOption)\<close>.\<close>

record store_read =
  r_filter :: obj
  r_sort :: obj
  r_projection :: obj

definition translate :: "env \<Rightarrow> jsval \<Rightarrow> jsval \<Rightarrow> jsval \<Rightarrow> jsval \<Rightarrow> js_error + store_read" where
  "translate e category minPrice sort' fields' =
     (let filter0 = [];
          filter1 = (if truthy category then assign filter0 ''category'' category else filter0);
          filter2 = (if truthy minPrice
                     then assign filter1 ''price'' (JObj [(''$gte'', JNum (Number e minPrice))])
                     else filter1);
          sortOption = (if sort' = JStr ''price'' then [(''price'', JNum (Fin 1))] else [])
      in if truthy fields'
         then (case fields' of
                 JStr s \<Rightarrow> Inr \<lparr>r_filter = filter2, r_sort = sortOption,
                                r_projection = projection_loop (split_comma s) []\<rparr>
               | _ \<Rightarrow> Inl TypeError)
         else Inr \<lparr>r_filter = filter2, r_sort = sortOption, r_projection = []\<rparr>)"

text \<open>The destructuring \<^verbatim>\<open>const { category, minPrice, sort, fields } = req.query\<close>.\<close>

definition build_query :: "env \<Rightarrow> obj \<Rightarrow> js_error + store_read" where
  "build_query e q =
     translate e (get_prop q ''category'') (get_prop q ''minPrice'') (get_prop q ''sort'') (get_prop q ''fields'')"

section \<open>The document store and what a handler leaves behind\<close>

text \<open>
  The store is the external MongoDB driver. The handlers reach it through two collection
  handles and five operations; an operation either resolves or rejects (\<open>None\<close>). A read
  leaves the stored state alone, a write that resolves returns the new state. The argument
  of \<^verbatim>\<open>$set\<close> is whatever value the handler passes. The handlers are run against an arbitrary
  store of this shape.
\<close>

datatype coll = productsCollection | itemsCollection

record 'st store_api =
  db_find :: "'st \<Rightarrow> coll \<Rightarrow> store_read \<Rightarrow> obj list option"
  db_findOne :: "'st \<Rightarrow> coll \<Rightarrow> oid \<Rightarrow> obj option option"
  db_insertOne :: "'st \<Rightarrow> coll \<Rightarrow> obj \<Rightarrow> (oid \<times> 'st) option"
  db_updateOne :: "'st \<Rightarrow> coll \<Rightarrow> oid \<Rightarrow> jsval \<Rightarrow> (nat \<times> 'st) option"
  db_deleteOne :: "'st \<Rightarrow> coll \<Rightarrow> oid \<Rightarrow> (nat \<times> 'st) option"

datatype store_call =
    Find coll store_read
  | FindOne coll oid
  | InsertOne coll obj
  | UpdateOne coll oid jsval
  | DeleteOne coll oid

datatype reply =
    Rejected
  | Docs "obj list"
  | Doc "obj option"
  | InsertedId oid
  | MatchedCount nat
  | DeletedCount nat

text \<open>
  The result of running a handler: what was sent, the store calls it made with their
  replies (in order), and the stored state afterwards.
\<close>

record 'st result =
  sent :: outcome
  calls :: "(store_call \<times> reply) list"
  state :: 'st

definition no_call :: "outcome \<Rightarrow> 'st \<Rightarrow> 'st result" where
  "no_call out st = \<lparr>sent = out, calls = [], state = st\<rparr>"

definition one_call :: "outcome \<Rightarrow> store_call \<Rightarrow> reply \<Rightarrow> 'st \<Rightarrow> 'st result" where
  "one_call out c r st = \<lparr>sent = out, calls = [(c, r)], state = st\<rparr>"

text \<open>
  \<^verbatim>\<open>await collection.op(...)\<close> followed by the rest of the handler, which only chooses the
  response from the reply. A rejected promise throws at the \<^verbatim>\<open>await\<close>.
\<close>

definition find_step ::
  "'st store_api \<Rightarrow> 'st \<Rightarrow> coll \<Rightarrow> store_read \<Rightarrow> (obj list \<Rightarrow> outcome) \<Rightarrow> 'st result" where
  "find_step db st c rd k =
     (case db_find db st c rd of
        None \<Rightarrow> one_call (Unhandled StoreError) (Find c rd) Rejected st
      | Some ds \<Rightarrow> one_call (k ds) (Find c rd) (Docs ds) st)"

definition findOne_step ::
  "'st store_api \<Rightarrow> 'st \<Rightarrow> coll \<Rightarrow> oid \<Rightarrow> (obj option \<Rightarrow> outcome) \<Rightarrow> 'st result" where
  "findOne_step db st c i k =
     (case db_findOne db st c i of
        None \<Rightarrow> one_call (Unhandled StoreError) (FindOne c i) Rejected st
      | Some d \<Rightarrow> one_call (k d) (FindOne c i) (Doc d) st)"

definition insertOne_step ::
  "'st store_api \<Rightarrow> 'st \<Rightarrow> coll \<Rightarrow> obj \<Rightarrow> (oid \<Rightarrow> outcome) \<Rightarrow> 'st result" where
  "insertOne_step db st c d k =
     (case db_insertOne db st c d of
        None \<Rightarrow> one_call (Unhandled StoreError) (InsertOne c d) Rejected st
      | Some (insertedId, st') \<Rightarrow> one_call (k insertedId) (InsertOne c d) (InsertedId insertedId) st')"

definition updateOne_step ::
  "'st store_api \<Rightarrow> 'st \<Rightarrow> coll \<Rightarrow> oid \<Rightarrow> jsval \<Rightarrow> (nat \<Rightarrow> outcome) \<Rightarrow> 'st result" where
  "updateOne_step db st c i fs k =
     (case db_updateOne db st c i fs of
        None \<Rightarrow> one_call (Unhandled StoreError) (UpdateOne c i fs) Rejected st
      | Some (matchedCount, st') \<Rightarrow>
          one_call (k matchedCount) (UpdateOne c i fs) (MatchedCount matchedCount) st')"

definition deleteOne_step ::
  "'st store_api \<Rightarrow> 'st \<Rightarrow> coll \<Rightarrow> oid \<Rightarrow> (nat \<Rightarrow> outcome) \<Rightarrow> 'st result" where
  "deleteOne_step db st c i k =
     (case db_deleteOne db st c i of
        None \<Rightarrow> one_call (Unhandled StoreError) (DeleteOne c i) Rejected st
      | Some (deletedCount, st') \<Rightarrow>
          one_call (k deletedCount) (DeleteOne c i) (DeletedCount deletedCount) st')"

text \<open>
  \<^verbatim>\<open>try { ... } catch (err) { res.status(500).json({ error: "Database error" }); }\<close>:
  whatever is thrown inside the block becomes the generic 500 response.
\<close>

definition try_catch :: "'st result \<Rightarrow> 'st result" where
  "try_catch r =
     (case sent r of
        Unhandled err \<Rightarrow> r\<lparr>sent := Response 500 (error_body ''Database error'')\<rparr>
      | Response status b \<Rightarrow> r)"

text \<open>\<^verbatim>\<open>v.trim()\<close> inside a handler: a TypeError is thrown before anything else happens.\<close>

definition trim_then :: "jsval \<Rightarrow> 'st \<Rightarrow> (jsval \<Rightarrow> 'st result) \<Rightarrow> 'st result" where
  "trim_then v st k = (case call_trim v of Inl err \<Rightarrow> no_call (Unhandled err) st | Inr v' \<Rightarrow> k v')"

text \<open>
  \<^verbatim>\<open>const { name, ... } = req.body\<close> and \<^verbatim>\<open>req.body.name\<close>: reading a property of
  \<^verbatim>\<open>undefined\<close> or \<^verbatim>\<open>null\<close> throws a TypeError; an object gives its properties; an array or
  a primitive value has none of the properties the handlers name (\<^verbatim>\<open>name\<close>, \<^verbatim>\<open>price\<close>,
  \<^verbatim>\<open>category\<close>, \<^verbatim>\<open>username\<close>, \<^verbatim>\<open>email\<close>, \<^verbatim>\<open>age\<close>), as the empty object.
\<close>

definition destructure :: "jsval \<Rightarrow> 'st \<Rightarrow> (obj \<Rightarrow> 'st result) \<Rightarrow> 'st result" where
  "destructure v st k =
     (case v of
        JUndefined \<Rightarrow> no_call (Unhandled TypeError) st
      | JNull \<Rightarrow> no_call (Unhandled TypeError) st
      | JObj ob \<Rightarrow> k ob
      | _ \<Rightarrow> k [])"

text \<open>
  \<^verbatim>\<open>Object.keys(v).length\<close>: a TypeError on \<^verbatim>\<open>undefined\<close> and \<^verbatim>\<open>null\<close>; the number of keys
  of an object, of elements of an array, of characters of a string; zero on the other
  primitive values.
\<close>

definition keys_length :: "jsval \<Rightarrow> 'st \<Rightarrow> (nat \<Rightarrow> 'st result) \<Rightarrow> 'st result" where
  "keys_length v st k =
     (case v of
        JUndefined \<Rightarrow> no_call (Unhandled TypeError) st
      | JNull \<Rightarrow> no_call (Unhandled TypeError) st
      | JObj ob \<Rightarrow> k (length ob)
      | JArr xs \<Rightarrow> k (length xs)
      | JStr cs \<Rightarrow> k (length cs)
      | _ \<Rightarrow> k 0)"

text \<open>A body from which properties can be read.\<close>

definition has_body :: "jsval \<Rightarrow> bool" where
  "has_body v = (v \<noteq> JUndefined \<and> v \<noteq> JNull)"

definition empty_read :: store_read where
  "empty_read = \<lparr>r_filter = [], r_sort = [], r_projection = []\<rparr>"

definition count_of :: "obj list \<Rightarrow> jsval" where
  "count_of ds = JNum (Fin (real (length ds)))"

section \<open>Product handlers\<close>

text \<open>GET /api/products with the query translator: \<^verbatim>\<open>app.js\<close> 69-110, \<^verbatim>\<open>part_003\<close> 75-116,
  \<^verbatim>\<open>part_000\<close> 52-85.\<close>

definition list_products_query :: "env \<Rightarrow> 'st store_api \<Rightarrow> request \<Rightarrow> 'st \<Rightarrow> 'st result" where
  "list_products_query e db req st =
     try_catch
       (case build_query e (query req) of
          Inl err \<Rightarrow> no_call (Unhandled err) st
        | Inr rd \<Rightarrow>
            find_step db st productsCollection rd
              (\<lambda>products. Response 200
                 (JObj [(''count'', count_of products), (''products'', JArr (map JObj products))])))"

text \<open>GET /api/products without parameters: \<^verbatim>\<open>part_001\<close> 54-64, \<^verbatim>\<open>part_002\<close> 73-83 and
  460-467.\<close>

definition list_products :: "env \<Rightarrow> 'st store_api \<Rightarrow> request \<Rightarrow> 'st \<Rightarrow> 'st result" where
  "list_products e db req st =
     try_catch
       (find_step db st productsCollection empty_read
          (\<lambda>products. Response 200
             (JObj [(''count'', count_of products), (''products'', JArr (map JObj products))])))"

text \<open>
  GET /:id inside try/catch, for products (\<^verbatim>\<open>app.js\<close> 115-135, \<^verbatim>\<open>part_003\<close> 121-141,
  \<^verbatim>\<open>part_000\<close> 90-110, \<^verbatim>\<open>part_001\<close> 69-89, \<^verbatim>\<open>part_002\<close> 88-108) and for items
  (\<^verbatim>\<open>part_001\<close> 193-213, \<^verbatim>\<open>part_002\<close> 212-232); the collection and the not-found message
  differ.
\<close>

definition found_or_404 :: "string \<Rightarrow> obj option \<Rightarrow> outcome" where
  "found_or_404 notFound d =
     (case d of None \<Rightarrow> Response 404 (error_body notFound) | Some x \<Rightarrow> Response 200 (JObj x))"

definition get_by_id ::
  "coll \<Rightarrow> string \<Rightarrow> env \<Rightarrow> 'st store_api \<Rightarrow> request \<Rightarrow> 'st \<Rightarrow> 'st result" where
  "get_by_id c notFound e db req st =
     (let id = params_id req in
      if \<not> isValid e id then no_call (Response 400 (error_body ''Invalid id'')) st
      else try_catch (findOne_step db st c (ObjectId e id) (found_or_404 notFound)))"

text \<open>The same without try/catch: \<^verbatim>\<open>part_002\<close> 469-483 (products) and 511-525 (items).\<close>

definition get_by_id_p002b ::
  "coll \<Rightarrow> string \<Rightarrow> env \<Rightarrow> 'st store_api \<Rightarrow> request \<Rightarrow> 'st \<Rightarrow> 'st result" where
  "get_by_id_p002b c notFound e db req st =
     (if \<not> isValid e (params_id req) then no_call (Response 400 (error_body ''Invalid id'')) st
      else findOne_step db st c (ObjectId e (params_id req)) (found_or_404 notFound))"

text \<open>POST /api/products, \<^verbatim>\<open>app.js\<close> 141-180 and \<^verbatim>\<open>part_003\<close> 147-186.\<close>

definition post_product_app :: "env \<Rightarrow> 'st store_api \<Rightarrow> request \<Rightarrow> 'st \<Rightarrow> 'st result" where
  "post_product_app e db req st =
     destructure (body req) st (\<lambda>b.
     (let name = get_prop b ''name'';
          price = get_prop b ''price'';
          category = get_prop b ''category''
      in if \<not> truthy name \<or> price = JUndefined \<or> \<not> truthy category
         then no_call (Response 400 (error_body ''Missing fields: name, price, category'')) st
         else if typeof name \<noteq> ''string'' \<or> typeof category \<noteq> ''string''
         then no_call (Response 400 (error_body ''name and category must be strings'')) st
         else if typeof price \<noteq> ''number'' \<or> price = JNum NaN
                 \<or> lt_zero price
         then no_call (Response 400 (error_body ''price must be a non-negative number'')) st
         else try_catch
           (trim_then name st (\<lambda>name'. trim_then category st (\<lambda>category'.
              let newProduct = [(''name'', name'), (''price'', price), (''category'', category'),
                                (''createdAt'', JDate (now e))]
              in insertOne_step db st productsCollection newProduct
                   (\<lambda>insertedId. Response 201
                      (JObj [(''message'', JStr ''Product created''), (''id'', JOid insertedId),
                             (''product'', JObj ((''_id'', JOid insertedId) # newProduct))])))))))"

text \<open>POST /api/products, \<^verbatim>\<open>part_000\<close> 115-153: no NaN test, no \<^verbatim>\<open>id\<close> in the answer.\<close>

definition post_product_p000 :: "env \<Rightarrow> 'st store_api \<Rightarrow> request \<Rightarrow> 'st \<Rightarrow> 'st result" where
  "post_product_p000 e db req st =
     destructure (body req) st (\<lambda>b.
     (let name = get_prop b ''name'';
          price = get_prop b ''price'';
          category = get_prop b ''category''
      in if \<not> truthy name \<or> price = JUndefined \<or> \<not> truthy category
         then no_call (Response 400 (error_body ''Missing fields: name, price, category'')) st
         else if typeof name \<noteq> ''string'' \<or> typeof category \<noteq> ''string''
         then no_call (Response 400 (error_body ''name and category must be strings'')) st
         else if typeof price \<noteq> ''number''
                 \<or> lt_zero price
         then no_call (Response 400 (error_body ''price must be a non-negative number'')) st
         else try_catch
           (trim_then name st (\<lambda>name'. trim_then category st (\<lambda>category'.
              let newProduct = [(''name'', name'), (''price'', price), (''category'', category'),
                                (''createdAt'', JDate (now e))]
              in insertOne_step db st productsCollection newProduct
                   (\<lambda>insertedId. Response 201
                      (JObj [(''message'', JStr ''Product created''),
                             (''product'', JObj ((''_id'', JOid insertedId) # newProduct))])))))))"

text \<open>POST /api/products, \<^verbatim>\<open>part_001\<close> 94-120 and \<^verbatim>\<open>part_002\<close> 113-139: only the presence
  test.\<close>

definition post_product_p001 :: "env \<Rightarrow> 'st store_api \<Rightarrow> request \<Rightarrow> 'st \<Rightarrow> 'st result" where
  "post_product_p001 e db req st =
     destructure (body req) st (\<lambda>b.
     (let name = get_prop b ''name'';
          price = get_prop b ''price'';
          category = get_prop b ''category''
      in if \<not> truthy name \<or> price = JUndefined \<or> \<not> truthy category
         then no_call (Response 400 (error_body ''Missing fields: name, price, category'')) st
         else try_catch
           (trim_then name st (\<lambda>name'. trim_then category st (\<lambda>category'.
              let newProduct = [(''name'', name'), (''price'', price), (''category'', category'),
                                (''createdAt'', JDate (now e))]
              in insertOne_step db st productsCollection newProduct
                   (\<lambda>insertedId. Response 201
                      (JObj [(''message'', JStr ''Product created''),
                             (''product'', JObj ((''_id'', JOid insertedId) # newProduct))])))))))"

text \<open>POST /api/products, \<^verbatim>\<open>part_002\<close> 485-500: the presence test, no try/catch.\<close>

definition post_product_p002b :: "env \<Rightarrow> 'st store_api \<Rightarrow> request \<Rightarrow> 'st \<Rightarrow> 'st result" where
  "post_product_p002b e db req st =
     destructure (body req) st (\<lambda>b.
     (let name = get_prop b ''name'';
          price = get_prop b ''price'';
          category = get_prop b ''category''
      in if \<not> truthy name \<or> price = JUndefined \<or> \<not> truthy category
         then no_call (Response 400 (error_body ''Missing fields'')) st
         else trim_then name st (\<lambda>name'. trim_then category st (\<lambda>category'.
                insertOne_step db st productsCollection
                  [(''name'', name'), (''price'', price), (''category'', category'),
                   (''createdAt'', JDate (now e))]
                  (\<lambda>insertedId. Response 201 (JObj [(''_id'', JOid insertedId)]))))))"

text \<open>
  PUT /api/products/:id, \<^verbatim>\<open>part_000\<close> 158-209. The checks and the construction of
  \<^verbatim>\<open>updateData\<close> are interleaved, each check returning early.
\<close>

definition updated_or_404 :: "string \<Rightarrow> string \<Rightarrow> nat \<Rightarrow> outcome" where
  "updated_or_404 notFound done matchedCount =
     (if matchedCount = 0 then Response 404 (error_body notFound)
      else Response 200 (message_body done))"

text \<open>
  One block of that handler: \<^verbatim>\<open>if (v) { if (typeof v !== "string") return 400; updateData[key] =
  v.trim(); }\<close>, followed by the rest \<open>k\<close> of the handler.
\<close>

definition trimmed_field ::
  "string \<Rightarrow> string \<Rightarrow> jsval \<Rightarrow> obj \<Rightarrow> 'st \<Rightarrow> (obj \<Rightarrow> 'st result) \<Rightarrow> 'st result" where
  "trimmed_field key msg v updateData st k =
     (if truthy v
      then (if typeof v \<noteq> ''string'' then no_call (Response 400 (error_body msg)) st
            else trim_then v st (\<lambda>v'. k (assign updateData key v')))
      else k updateData)"

definition put_product_p000 :: "env \<Rightarrow> 'st store_api \<Rightarrow> request \<Rightarrow> 'st \<Rightarrow> 'st result" where
  "put_product_p000 e db req st =
     destructure (body req) st (\<lambda>b.
     (let id = params_id req;
          name = get_prop b ''name'';
          price = get_prop b ''price'';
          category = get_prop b ''category''
      in if \<not> isValid e id then no_call (Response 400 (error_body ''Invalid id'')) st
         else if \<not> truthy name \<and> price = JUndefined \<and> \<not> truthy category
         then no_call (Response 400 (error_body ''At least one field must be provided'')) st
         else
           trimmed_field ''name'' ''name must be a string'' name [] st (\<lambda>updateData1.
           trimmed_field ''category'' ''category must be a string'' category updateData1 st
             (\<lambda>updateData2.
                if price \<noteq> JUndefined \<and>
                   (typeof price \<noteq> ''number''
                    \<or> lt_zero price)
                then no_call (Response 400 (error_body ''price must be a non-negative number'')) st
                else
                  let updateData = (if price \<noteq> JUndefined
                                    then assign updateData2 ''price'' price else updateData2)
                  in try_catch
                       (updateOne_step db st productsCollection (ObjectId e id) (JObj updateData)
                          (updated_or_404 ''Product not found'' ''Product updated''))))))"

text \<open>PUT /api/products/:id, \<^verbatim>\<open>part_001\<close> 125-147 and \<^verbatim>\<open>part_002\<close> 144-166: the three body
  fields are written as they come.\<close>

definition put_product_p001 :: "env \<Rightarrow> 'st store_api \<Rightarrow> request \<Rightarrow> 'st \<Rightarrow> 'st result" where
  "put_product_p001 e db req st =
     destructure (body req) st (\<lambda>b.
     (let id = params_id req;
          name = get_prop b ''name'';
          price = get_prop b ''price'';
          category = get_prop b ''category''
      in if \<not> isValid e id then no_call (Response 400 (error_body ''Invalid id'')) st
         else try_catch
                (updateOne_step db st productsCollection (ObjectId e id)
                   (JObj [(''name'', name), (''price'', price), (''category'', category)])
                   (updated_or_404 ''Product not found'' ''Product updated''))))"

text \<open>
  DELETE /:id inside try/catch, for products (\<^verbatim>\<open>app.js\<close> 183-203, \<^verbatim>\<open>part_003\<close> 191-211,
  \<^verbatim>\<open>part_000\<close> 214-234, \<^verbatim>\<open>part_001\<close> 152-172, \<^verbatim>\<open>part_002\<close> 171-191; answer
  \<^verbatim>\<open>res.json({ message: "Product deleted" })\<close>) and for items (\<^verbatim>\<open>part_001\<close> 323-343,
  \<^verbatim>\<open>part_002\<close> 326-346; answer \<^verbatim>\<open>res.status(204).send()\<close>).
\<close>

definition deleted_or_404 :: "string \<Rightarrow> outcome \<Rightarrow> nat \<Rightarrow> outcome" where
  "deleted_or_404 notFound ok deletedCount =
     (if deletedCount = 0 then Response 404 (error_body notFound) else ok)"

definition delete_by_id ::
  "coll \<Rightarrow> string \<Rightarrow> outcome \<Rightarrow> env \<Rightarrow> 'st store_api \<Rightarrow> request \<Rightarrow> 'st \<Rightarrow> 'st result" where
  "delete_by_id c notFound ok e db req st =
     (let id = params_id req in
      if \<not> isValid e id then no_call (Response 400 (error_body ''Invalid id'')) st
      else try_catch (deleteOne_step db st c (ObjectId e id) (deleted_or_404 notFound ok)))"

definition delete_product :: "env \<Rightarrow> 'st store_api \<Rightarrow> request \<Rightarrow> 'st \<Rightarrow> 'st result" where
  "delete_product =
     delete_by_id productsCollection ''Product not found''
       (Response 200 (message_body ''Product deleted''))"

section \<open>Item handlers\<close>

text \<open>GET /api/items inside try/catch: \<^verbatim>\<open>part_001\<close> 181-188, \<^verbatim>\<open>part_002\<close> 200-207.\<close>

definition list_items :: "env \<Rightarrow> 'st store_api \<Rightarrow> request \<Rightarrow> 'st \<Rightarrow> 'st result" where
  "list_items e db req st =
     try_catch
       (find_step db st itemsCollection empty_read (\<lambda>items. Response 200 (JArr (map JObj items))))"

text \<open>GET /api/items without try/catch: \<^verbatim>\<open>part_002\<close> 506-509.\<close>

definition list_items_p002b :: "env \<Rightarrow> 'st store_api \<Rightarrow> request \<Rightarrow> 'st \<Rightarrow> 'st result" where
  "list_items_p002b e db req st =
     find_step db st itemsCollection empty_read (\<lambda>items. Response 200 (JArr (map JObj items)))"

subsection \<open>User profiles (\<^verbatim>\<open>part_001\<close>)\<close>

text \<open>POST /api/items, \<^verbatim>\<open>part_001\<close> 218-248.\<close>

definition post_user_p001 :: "env \<Rightarrow> 'st store_api \<Rightarrow> request \<Rightarrow> 'st \<Rightarrow> 'st result" where
  "post_user_p001 e db req st =
     destructure (body req) st (\<lambda>b.
     (let username = get_prop b ''username'';
          email = get_prop b ''email'';
          age = get_prop b ''age''
      in if \<not> truthy username \<or> \<not> truthy email \<or> age = JUndefined
         then no_call (Response 400 (error_body ''username, email and age are required'')) st
         else if typeof age \<noteq> ''number''
         then no_call (Response 400 (error_body ''age must be a number'')) st
         else try_catch
           (trim_then username st (\<lambda>username'. trim_then email st (\<lambda>email'.
              let newUser = [(''username'', username'), (''email'', email'), (''age'', age),
                             (''createdAt'', JDate (now e))]
              in insertOne_step db st itemsCollection newUser
                   (\<lambda>insertedId. Response 201
                      (JObj [(''message'', JStr ''User created''),
                             (''user'', JObj ((''_id'', JOid insertedId) # newUser))])))))))"

text \<open>PUT /api/items/:id, \<^verbatim>\<open>part_001\<close> 253-287.\<close>

definition put_user_p001 :: "env \<Rightarrow> 'st store_api \<Rightarrow> request \<Rightarrow> 'st \<Rightarrow> 'st result" where
  "put_user_p001 e db req st =
     destructure (body req) st (\<lambda>b.
     (let id = params_id req;
          username = get_prop b ''username'';
          email = get_prop b ''email'';
          age = get_prop b ''age''
      in if \<not> isValid e id then no_call (Response 400 (error_body ''Invalid id'')) st
         else if \<not> truthy username \<or> \<not> truthy email \<or> age = JUndefined
         then no_call (Response 400 (error_body ''username, email and age are required'')) st
         else try_catch
           (trim_then username st (\<lambda>username'. trim_then email st (\<lambda>email'.
              updateOne_step db st itemsCollection (ObjectId e id)
                (JObj [(''username'', username'), (''email'', email'), (''age'', age)])
                (updated_or_404 ''User not found'' ''User fully updated''))))))"

text \<open>PATCH /api/items/:id, \<^verbatim>\<open>part_001\<close> 292-318: \<^verbatim>\<open>Object.keys(updates).length === 0\<close> is the
  only test of the body.\<close>

definition patch_user_p001 :: "env \<Rightarrow> 'st store_api \<Rightarrow> request \<Rightarrow> 'st \<Rightarrow> 'st result" where
  "patch_user_p001 e db req st =
     (let id = params_id req;
          updates = body req
      in if \<not> isValid e id then no_call (Response 400 (error_body ''Invalid id'')) st
         else keys_length updates st (\<lambda>n.
           if n = 0 then no_call (Response 400 (error_body ''No fields to update'')) st
           else try_catch
                  (updateOne_step db st itemsCollection (ObjectId e id) updates
                     (updated_or_404 ''User not found'' ''User partially updated''))))"

subsection \<open>Named items (\<^verbatim>\<open>part_002\<close>, first revision)\<close>

text \<open>POST /api/items, \<^verbatim>\<open>part_002\<close> 237-259.\<close>

definition post_item_p002a :: "env \<Rightarrow> 'st store_api \<Rightarrow> request \<Rightarrow> 'st \<Rightarrow> 'st result" where
  "post_item_p002a e db req st =
     destructure (body req) st (\<lambda>b.
     (let name = get_prop b ''name''
      in if \<not> truthy name then no_call (Response 400 (error_body ''Name is required'')) st
         else try_catch
           (trim_then name st (\<lambda>name'.
              let newItem = [(''name'', name'), (''createdAt'', JDate (now e))]
              in insertOne_step db st itemsCollection newItem
                   (\<lambda>insertedId. Response 201
                      (JObj [(''message'', JStr ''Item created''),
                             (''item'', JObj ((''_id'', JOid insertedId) # newItem))]))))))"

text \<open>PUT and PATCH /api/items/:id, \<^verbatim>\<open>part_002\<close> 264-290 and 295-321: the same code but for
  the two messages.\<close>

definition set_name_p002a ::
  "string \<Rightarrow> string \<Rightarrow> env \<Rightarrow> 'st store_api \<Rightarrow> request \<Rightarrow> 'st \<Rightarrow> 'st result" where
  "set_name_p002a missing done e db req st =
     destructure (body req) st (\<lambda>b.
     (let id = params_id req;
          name = get_prop b ''name''
      in if \<not> isValid e id then no_call (Response 400 (error_body ''Invalid id'')) st
         else if \<not> truthy name then no_call (Response 400 (error_body missing)) st
         else try_catch
           (trim_then name st (\<lambda>name'.
              updateOne_step db st itemsCollection (ObjectId e id) (JObj [(''name'', name')])
                (updated_or_404 ''Item not found'' done)))))"

definition put_item_p002a :: "env \<Rightarrow> 'st store_api \<Rightarrow> request \<Rightarrow> 'st \<Rightarrow> 'st result" where
  "put_item_p002a = set_name_p002a ''Name is required'' ''Item fully updated''"

definition patch_item_p002a :: "env \<Rightarrow> 'st store_api \<Rightarrow> request \<Rightarrow> 'st \<Rightarrow> 'st result" where
  "patch_item_p002a = set_name_p002a ''Nothing to update'' ''Item partially updated''"

subsection \<open>The API-key-gated revision (\<^verbatim>\<open>part_002\<close>, second revision)\<close>

text \<open>
  \<^verbatim>\<open>checkApiKey\<close>, \<^verbatim>\<open>part_002\<close> 419-431 (and 28-40, where no route uses it). The header is a
  string or undefined, and so is \<^verbatim>\<open>process.env.API_KEY\<close>. \<open>None\<close> stands for \<^verbatim>\<open>next()\<close>.
\<close>

definition opt_str :: "string option \<Rightarrow> jsval" where
  "opt_str x = (case x of None \<Rightarrow> JUndefined | Some s \<Rightarrow> JStr s)"

definition checkApiKey :: "env \<Rightarrow> request \<Rightarrow> outcome option" where
  "checkApiKey e req =
     (let apiKey = opt_str (x_api_key req)
      in if \<not> truthy apiKey then Some (Response 401 (error_body ''API key is missing''))
         else if apiKey \<noteq> opt_str (API_KEY e) then Some (Response 403 (error_body ''Invalid API key''))
         else None)"

text \<open>A route \<^verbatim>\<open>app.verb(path, checkApiKey, handler)\<close>: the handler runs only after
  \<^verbatim>\<open>next()\<close>.\<close>

definition gated :: "env \<Rightarrow> request \<Rightarrow> 'st \<Rightarrow> 'st result \<Rightarrow> 'st result" where
  "gated e req st handler =
     (case checkApiKey e req of Some r \<Rightarrow> no_call r st | None \<Rightarrow> handler)"

text \<open>The handler of POST /api/items, \<^verbatim>\<open>part_002\<close> 529-542.\<close>

definition post_item_p002b :: "env \<Rightarrow> 'st store_api \<Rightarrow> request \<Rightarrow> 'st \<Rightarrow> 'st result" where
  "post_item_p002b e db req st =
     destructure (body req) st (\<lambda>b.
     (let name = get_prop b ''name''
      in if \<not> truthy name then no_call (Response 400 (error_body ''Name is required'')) st
         else trim_then name st (\<lambda>name'.
                insertOne_step db st itemsCollection
                  [(''name'', name'), (''createdAt'', JDate (now e))]
                  (\<lambda>insertedId. Response 201 (JObj [(''_id'', JOid insertedId)])))))"

text \<open>The handler of PUT /api/items/:id, \<^verbatim>\<open>part_002\<close> 544-559.\<close>

definition put_item_p002b :: "env \<Rightarrow> 'st store_api \<Rightarrow> request \<Rightarrow> 'st \<Rightarrow> 'st result" where
  "put_item_p002b e db req st =
     (if \<not> isValid e (params_id req) then no_call (Response 400 (error_body ''Invalid id'')) st
      else destructure (body req) st (\<lambda>b.
             updateOne_step db st itemsCollection (ObjectId e (params_id req))
               (JObj [(''name'', get_prop b ''name'')])
               (updated_or_404 ''Item not found'' ''Item fully updated'')))"

text \<open>The handler of PATCH /api/items/:id, \<^verbatim>\<open>part_002\<close> 561-576: \<^verbatim>\<open>{ $set: req.body }\<close>.\<close>

definition patch_item_p002b :: "env \<Rightarrow> 'st store_api \<Rightarrow> request \<Rightarrow> 'st \<Rightarrow> 'st result" where
  "patch_item_p002b e db req st =
     (if \<not> isValid e (params_id req) then no_call (Response 400 (error_body ''Invalid id'')) st
      else updateOne_step db st itemsCollection (ObjectId e (params_id req)) (body req)
             (updated_or_404 ''Item not found'' ''Item partially updated''))"

text \<open>The handler of DELETE /api/items/:id, \<^verbatim>\<open>part_002\<close> 578-588: the reply of
  \<^verbatim>\<open>deleteOne\<close> is not read.\<close>

definition delete_item_p002b :: "env \<Rightarrow> 'st store_api \<Rightarrow> request \<Rightarrow> 'st \<Rightarrow> 'st result" where
  "delete_item_p002b e db req st =
     (if \<not> isValid e (params_id req) then no_call (Response 400 (error_body ''Invalid id'')) st
      else deleteOne_step db st itemsCollection (ObjectId e (params_id req))
             (\<lambda>deletedCount. Response 204 JUndefined))"

text \<open>The four gated routes, \<^verbatim>\<open>part_002\<close> 529, 544, 561, 578.\<close>

definition post_item_route :: "env \<Rightarrow> 'st store_api \<Rightarrow> request \<Rightarrow> 'st \<Rightarrow> 'st result" where
  "post_item_route e db req st = gated e req st (post_item_p002b e db req st)"

definition put_item_route :: "env \<Rightarrow> 'st store_api \<Rightarrow> request \<Rightarrow> 'st \<Rightarrow> 'st result" where
  "put_item_route e db req st = gated e req st (put_item_p002b e db req st)"

definition patch_item_route :: "env \<Rightarrow> 'st store_api \<Rightarrow> request \<Rightarrow> 'st \<Rightarrow> 'st result" where
  "patch_item_route e db req st = gated e req st (patch_item_p002b e db req st)"

definition delete_item_route :: "env \<Rightarrow> 'st store_api \<Rightarrow> request \<Rightarrow> 'st \<Rightarrow> 'st result" where
  "delete_item_route e db req st = gated e req st (delete_item_p002b e db req st)"

section \<open>The endpoints, by what they do\<close>

text \<open>The instances of the shared handlers, one per route.\<close>

definition get_product :: "env \<Rightarrow> 'st store_api \<Rightarrow> request \<Rightarrow> 'st \<Rightarrow> 'st result" where
  "get_product = get_by_id productsCollection ''Product not found''"

definition get_user_p001 :: "env \<Rightarrow> 'st store_api \<Rightarrow> request \<Rightarrow> 'st \<Rightarrow> 'st result" where
  "get_user_p001 = get_by_id itemsCollection ''User not found''"

definition get_item_p002a :: "env \<Rightarrow> 'st store_api \<Rightarrow> request \<Rightarrow> 'st \<Rightarrow> 'st result" where
  "get_item_p002a = get_by_id itemsCollection ''Item not found''"

definition get_product_p002b :: "env \<Rightarrow> 'st store_api \<Rightarrow> request \<Rightarrow> 'st \<Rightarrow> 'st result" where
  "get_product_p002b = get_by_id_p002b productsCollection ''Product not found''"

definition get_item_p002b :: "env \<Rightarrow> 'st store_api \<Rightarrow> request \<Rightarrow> 'st \<Rightarrow> 'st result" where
  "get_item_p002b = get_by_id_p002b itemsCollection ''Item not found''"

definition delete_user_p001 :: "env \<Rightarrow> 'st store_api \<Rightarrow> request \<Rightarrow> 'st \<Rightarrow> 'st result" where
  "delete_user_p001 = delete_by_id itemsCollection ''User not found'' (Response 204 JUndefined)"

definition delete_item_p002a :: "env \<Rightarrow> 'st store_api \<Rightarrow> request \<Rightarrow> 'st \<Rightarrow> 'st result" where
  "delete_item_p002a = delete_by_id itemsCollection ''Item not found'' (Response 204 JUndefined)"

text \<open>
  The handlers that address one record by identifier. Some test the identifier before
  they read anything of the body; the others begin with
  \<^verbatim>\<open>const { ... } = req.body\<close> (\<^verbatim>\<open>part_000\<close> 160, \<^verbatim>\<open>part_001\<close> 127 and 255, \<^verbatim>\<open>part_002\<close> 146, 266
  and 297). The DELETE handler of the gated revision, which does not read the store's
  reply, is kept apart.
\<close>

definition id_first_handlers ::
  "(env \<Rightarrow> 'st store_api \<Rightarrow> request \<Rightarrow> 'st \<Rightarrow> 'st result) list" where
  "id_first_handlers =
     [get_product, get_user_p001, get_item_p002a, get_product_p002b, get_item_p002b,
      patch_user_p001, put_item_p002b, patch_item_p002b,
      delete_product, delete_user_p001, delete_item_p002a]"

definition body_first_handlers ::
  "(env \<Rightarrow> 'st store_api \<Rightarrow> request \<Rightarrow> 'st \<Rightarrow> 'st result) list" where
  "body_first_handlers =
     [put_product_p000, put_product_p001, put_user_p001, put_item_p002a, patch_item_p002a]"

definition by_id_handlers ::
  "(env \<Rightarrow> 'st store_api \<Rightarrow> request \<Rightarrow> 'st \<Rightarrow> 'st result) list" where
  "by_id_handlers = id_first_handlers @ body_first_handlers"

text \<open>A store call on one identifier, and a reply that says no record matched.\<close>

fun on_id :: "oid \<Rightarrow> store_call \<Rightarrow> bool" where
  "on_id i (FindOne c j) = (j = i)"
| "on_id i (UpdateOne c j fs) = (j = i)"
| "on_id i (DeleteOne c j) = (j = i)"
| "on_id i (Find c rd) = False"
| "on_id i (InsertOne c d) = False"

fun no_match :: "reply \<Rightarrow> bool" where
  "no_match (Doc d) = (d = None)"
| "no_match (MatchedCount n) = (n = 0)"
| "no_match (DeletedCount n) = (n = 0)"
| "no_match Rejected = False"
| "no_match (Docs ds) = False"
| "no_match (InsertedId i) = False"

text \<open>The status of what was sent, if a response was sent.\<close>

fun status_of :: "outcome \<Rightarrow> nat option" where
  "status_of (Response n b) = Some n"
| "status_of (Unhandled err) = None"

text \<open>
  Two shapes of result used in the proofs: a 400 response comes with no store call and the
  state the handler started from; a 404 response comes exactly with one store call on the
  identifier whose reply says no record matched.
\<close>

definition quiet400 :: "'st result \<Rightarrow> 'st \<Rightarrow> bool" where
  "quiet400 r st = (status_of (sent r) = Some 400 \<longrightarrow> calls r = [] \<and> state r = st)"

definition not_found_iff :: "'st result \<Rightarrow> oid \<Rightarrow> bool" where
  "not_found_iff r i =
     (status_of (sent r) = Some 404 \<longleftrightarrow> (\<exists>c rp. calls r = [(c, rp)] \<and> on_id i c \<and> no_match rp))"

section \<open>A reference store and environment for running the handlers\<close>

text \<open>
  The theorems below hold for every store and every environment. To run a handler on a
  concrete request, this section gives one store that follows the capability the handlers
  rely on (find with filter, sort and projection; find, update and delete one record by
  identifier; insert with a generated identifier), kept in memory, and one environment.
\<close>

record mem =
  m_products :: "obj list"
  m_items :: "obj list"
  m_next :: nat
  m_down :: bool

definition docs_of :: "mem \<Rightarrow> coll \<Rightarrow> obj list" where
  "docs_of st c = (case c of productsCollection \<Rightarrow> m_products st | itemsCollection \<Rightarrow> m_items st)"

definition with_docs :: "mem \<Rightarrow> coll \<Rightarrow> obj list \<Rightarrow> mem" where
  "with_docs st c ds =
     (case c of productsCollection \<Rightarrow> st\<lparr>m_products := ds\<rparr> | itemsCollection \<Rightarrow> st\<lparr>m_items := ds\<rparr>)"

definition has_id :: "oid \<Rightarrow> obj \<Rightarrow> bool" where
  "has_id i d = (get_prop d ''_id'' = JOid i)"

text \<open>A filter entry is an equality, or \<^verbatim>\<open>{ $gte: n }\<close> on a number.\<close>

definition cond_holds :: "jsval \<Rightarrow> jsval \<Rightarrow> bool" where
  "cond_holds cond v =
     (case cond of
        JObj [(opr, JNum n)] \<Rightarrow>
          (if opr = ''$gte''
           then (case v of JNum p \<Rightarrow> p \<noteq> NaN \<and> n \<noteq> NaN \<and> \<not> num_lt p n | _ \<Rightarrow> False)
           else v = cond)
      | _ \<Rightarrow> v = cond)"

definition matches :: "obj \<Rightarrow> obj \<Rightarrow> bool" where
  "matches flt d = list_all (\<lambda>(k, cond). cond_holds cond (get_prop d k)) flt"

definition price_of :: "obj \<Rightarrow> jsnum" where
  "price_of d = (case get_prop d ''price'' of JNum n \<Rightarrow> n | _ \<Rightarrow> NegInf)"

fun insert_by_price :: "obj \<Rightarrow> obj list \<Rightarrow> obj list" where
  "insert_by_price d [] = [d]"
| "insert_by_price d (x # xs) =
     (if num_lt (price_of d) (price_of x) then d # x # xs else x # insert_by_price d xs)"

text \<open>The only sort the handlers ask for is \<^verbatim>\<open>{ price: 1 }\<close>; any other keeps the stored order.\<close>

definition sorted_docs :: "obj \<Rightarrow> obj list \<Rightarrow> obj list" where
  "sorted_docs srt ds =
     (if srt = [(''price'', JNum (Fin 1))] then fold insert_by_price ds [] else ds)"

definition project :: "obj \<Rightarrow> obj \<Rightarrow> obj" where
  "project prj d =
     (if prj = [] then d else filter (\<lambda>(k, v). k = ''_id'' \<or> k \<in> fst ` set prj) d)"

definition mem_find :: "mem \<Rightarrow> coll \<Rightarrow> store_read \<Rightarrow> obj list option" where
  "mem_find st c rd =
     (if m_down st then None
      else Some (map (project (r_projection rd))
                   (sorted_docs (r_sort rd) (filter (matches (r_filter rd)) (docs_of st c)))))"

definition mem_findOne :: "mem \<Rightarrow> coll \<Rightarrow> oid \<Rightarrow> obj option option" where
  "mem_findOne st c i = (if m_down st then None else Some (find (has_id i) (docs_of st c)))"

primrec hex_pad :: "nat \<Rightarrow> nat \<Rightarrow> string" where
  "hex_pad 0 n = []"
| "hex_pad (Suc k) n = hex_pad k (n div 16) @ [''0123456789abcdef'' ! (n mod 16)]"

definition mem_insertOne :: "mem \<Rightarrow> coll \<Rightarrow> obj \<Rightarrow> (oid \<times> mem) option" where
  "mem_insertOne st c d =
     (if m_down st then None
      else let i = Oid (hex_pad 24 (m_next st))
           in Some (i, with_docs (st\<lparr>m_next := Suc (m_next st)\<rparr>) c
                         (docs_of st c @ [(''_id'', JOid i) # d])))"

fun set_fields :: "obj \<Rightarrow> obj \<Rightarrow> obj" where
  "set_fields [] d = d"
| "set_fields ((k, v) # fs) d = set_fields fs (assign d k v)"

fun update_first :: "oid \<Rightarrow> obj \<Rightarrow> obj list \<Rightarrow> obj list" where
  "update_first i fs [] = []"
| "update_first i fs (d # ds) =
     (if has_id i d then set_fields fs d # ds else d # update_first i fs ds)"

fun delete_first :: "oid \<Rightarrow> obj list \<Rightarrow> obj list" where
  "delete_first i [] = []"
| "delete_first i (d # ds) = (if has_id i d then ds else d # delete_first i ds)"

text \<open>An update whose \<^verbatim>\<open>$set\<close> argument is not a document is refused.\<close>

definition mem_updateOne :: "mem \<Rightarrow> coll \<Rightarrow> oid \<Rightarrow> jsval \<Rightarrow> (nat \<times> mem) option" where
  "mem_updateOne st c i v =
     (case v of
        JObj fs \<Rightarrow>
          (if m_down st then None
           else if list_ex (has_id i) (docs_of st c)
           then Some (1, with_docs st c (update_first i fs (docs_of st c)))
           else Some (0, st))
      | _ \<Rightarrow> None)"

definition mem_deleteOne :: "mem \<Rightarrow> coll \<Rightarrow> oid \<Rightarrow> (nat \<times> mem) option" where
  "mem_deleteOne st c i =
     (if m_down st then None
      else if list_ex (has_id i) (docs_of st c)
      then Some (1, with_docs st c (delete_first i (docs_of st c)))
      else Some (0, st))"

definition mem_api :: "mem store_api" where
  "mem_api = \<lparr>db_find = mem_find, db_findOne = mem_findOne, db_insertOne = mem_insertOne,
              db_updateOne = mem_updateOne, db_deleteOne = mem_deleteOne\<rparr>"

definition mem_empty :: mem where
  "mem_empty = \<lparr>m_products = [], m_items = [], m_next = 0, m_down = False\<rparr>"

text \<open>
  The environment of the examples: an identifier is valid when it is 24 hexadecimal digits,
  and the configured key is \<^verbatim>\<open>s3cret\<close>. Its conversion \<open>Number0\<close> is not \<^verbatim>\<open>Number\<close>: it agrees
  with it on strings of at most 15 decimal digits (the empty string is 0), which is where
  the examples use it, and is NaN on every other string.
\<close>

definition is_hex :: "char \<Rightarrow> bool" where
  "is_hex c = (c \<in> set ''0123456789abcdefABCDEF'')"

definition hex24 :: "string \<Rightarrow> bool" where
  "hex24 s = (length s = 24 \<and> list_all is_hex s)"

fun digits_value :: "string \<Rightarrow> nat \<Rightarrow> nat option" where
  "digits_value [] acc = Some acc"
| "digits_value (c # cs) acc =
     (if c \<in> set ''0123456789'' then digits_value cs (10 * acc + (of_char c - 48)) else None)"

definition Number0 :: "jsval \<Rightarrow> jsnum" where
  "Number0 v =
     (case v of
        JStr s \<Rightarrow> (case digits_value s 0 of Some n \<Rightarrow> Fin (real n) | None \<Rightarrow> NaN)
      | JNum n \<Rightarrow> n
      | _ \<Rightarrow> NaN)"

definition env0 :: env where
  "env0 = \<lparr>isValid = hex24, ObjectId = Oid, Number = Number0, API_KEY = Some ''s3cret'',
           now = 1769126400000\<rparr>"

definition id1 :: string where
  "id1 = ''65a1b2c3d4e5f60718293a4b''"

definition request0 :: request where
  "request0 = \<lparr>params_id = id1, query = [], body = JObj [], x_api_key = None\<rparr>"

text \<open>A query string with all four recognised parameters:
  \<^verbatim>\<open>?category=A&minPrice=10&sort=price&fields=name,price\<close>.\<close>

definition query1 :: obj where
  "query1 = [(''category'', JStr ''A''), (''minPrice'', JStr ''10''), (''sort'', JStr ''price''),
             (''fields'', JStr ''name,price'')]"

section \<open>Properties of the query translator\<close>

lemma map_of_assign: "map_of (assign ob k v) = (map_of ob)(k \<mapsto> v)"
  by (induction ob) (auto simp: fun_eq_iff)

lemma map_of_projection_loop:
  "map_of (projection_loop fs p) k =
     (if k \<in> set fs \<and> k \<noteq> ''__proto__'' then Some (JNum (Fin 1)) else map_of p k)"
  by (induction fs arbitrary: p) (auto simp: map_of_assign)

lemma typeof_string_iff: "typeof v = ''string'' \<longleftrightarrow> (\<exists>s. v = JStr s)"
  by (cases v) simp_all

lemma translate_filter:
  assumes "translate e c m s f = Inr rd"
  shows "map_of (r_filter rd) k =
           (if k = ''category'' \<and> truthy c then Some c
            else if k = ''price'' \<and> truthy m then Some (JObj [(''$gte'', JNum (Number e m))])
            else None)"
  using assms
  by (auto simp: translate_def Let_def map_of_assign split: if_splits jsval.splits)

lemma translate_sort:
  assumes "translate e c m s f = Inr rd"
  shows "r_sort rd = (if s = JStr ''price'' then [(''price'', JNum (Fin 1))] else [])"
  using assms by (auto simp: translate_def Let_def split: if_splits jsval.splits)

lemma translate_projection:
  assumes "translate e c m s f = Inr rd"
  shows "(\<forall>x. f = JStr x \<longrightarrow> x \<noteq> [] \<longrightarrow>
            (\<forall>k. map_of (r_projection rd) k =
               (if k \<in> set (split_comma x) \<and> k \<noteq> ''__proto__'' then Some (JNum (Fin 1)) else None)))
         \<and> (\<not> truthy f \<longrightarrow> r_projection rd = [])"
  using assms
  by (auto simp: translate_def Let_def map_of_projection_loop split: if_splits jsval.splits)

lemma translate_total:
  assumes "truthy f \<longrightarrow> typeof f = ''string''"
  shows "\<exists>rd. translate e c m s f = Inr rd"
  using assms by (cases f) (auto simp: translate_def Let_def)

lemma list_products_query_calls:
  assumes "build_query e (query req) = Inr rd"
  shows "map fst (calls (list_products_query e db req st)) = [Find productsCollection rd]"
  using assms
  by (simp add: list_products_query_def find_step_def one_call_def try_catch_def
      split: option.split outcome.split)

text \<open>
  Claim C1, amended. For every GET /api/products request of the revisions with a query
  translator whose \<^verbatim>\<open>fields\<close> parameter is absent, empty or a string, the handler makes one
  \<^verbatim>\<open>find\<close> call with the translated read: the filter has the key \<^verbatim>\<open>category\<close>, bound to the given
  value, exactly when \<^verbatim>\<open>category\<close> is supplied with a non-empty (truthy) value, the key
  \<^verbatim>\<open>price\<close>, bound to \<^verbatim>\<open>{ $gte: Number(minPrice) }\<close>, exactly when \<^verbatim>\<open>minPrice\<close> is supplied with a
  non-empty value, and no other key; the sort document is \<^verbatim>\<open>{ price: 1 }\<close> when \<^verbatim>\<open>sort\<close> is the
  string \<^verbatim>\<open>price\<close> and empty otherwise; for a non-empty \<^verbatim>\<open>fields\<close> string the projection holds
  exactly the comma-separated pieces (but a piece \<^verbatim>\<open>__proto__\<close>), each bound to 1; an absent or
  empty \<^verbatim>\<open>fields\<close> gives the empty projection.
\<close>

theorem C1_query_translation:
  assumes "truthy (get_prop (query req) ''fields'') \<longrightarrow>
           typeof (get_prop (query req) ''fields'') = ''string''"
  shows "\<exists>rd. build_query e (query req) = Inr rd
    \<and> map fst (calls (list_products_query e db req st)) = [Find productsCollection rd]
    \<and> (\<forall>k. map_of (r_filter rd) k =
          (if k = ''category'' \<and> truthy (get_prop (query req) ''category'')
           then Some (get_prop (query req) ''category'')
           else if k = ''price'' \<and> truthy (get_prop (query req) ''minPrice'')
           then Some (JObj [(''$gte'', JNum (Number e (get_prop (query req) ''minPrice'')))])
           else None))
    \<and> r_sort rd =
          (if get_prop (query req) ''sort'' = JStr ''price'' then [(''price'', JNum (Fin 1))] else [])
    \<and> (\<forall>x. get_prop (query req) ''fields'' = JStr x \<longrightarrow> x \<noteq> [] \<longrightarrow>
          (\<forall>k. map_of (r_projection rd) k =
             (if k \<in> set (split_comma x) \<and> k \<noteq> ''__proto__''
              then Some (JNum (Fin 1)) else None)))
    \<and> (\<not> truthy (get_prop (query req) ''fields'') \<longrightarrow> r_projection rd = [])"
proof -
  from translate_total [OF assms] obtain rd
    where rd: "build_query e (query req) = Inr rd"
    unfolding build_query_def by blast
  note t = rd [unfolded build_query_def]
  show ?thesis
    using rd list_products_query_calls [OF rd, of db st] translate_filter [OF t]
      translate_sort [OF t] translate_projection [OF t]
    by simp
qed

text \<open>
  Claim C1, witness: the theorem at the query \<^verbatim>\<open>?category=A&minPrice=10&sort=price&fields=name,price\<close>.
\<close>

theorem C1_query_translation_witness:
  "truthy (get_prop query1 ''fields'') \<and> typeof (get_prop query1 ''fields'') = ''string''
   \<and> (\<exists>rd. build_query env0 query1 = Inr rd
        \<and> map fst (calls (list_products_query env0 mem_api (request0\<lparr>query := query1\<rparr>) mem_empty))
            = [Find productsCollection rd]
        \<and> map_of (r_filter rd) ''category'' = Some (JStr ''A'')
        \<and> map_of (r_filter rd) ''price'' = Some (JObj [(''$gte'', JNum (Fin 10))])
        \<and> r_sort rd = [(''price'', JNum (Fin 1))]
        \<and> map_of (r_projection rd) ''name'' = Some (JNum (Fin 1))
        \<and> map_of (r_projection rd) ''price'' = Some (JNum (Fin 1))
        \<and> map_of (r_projection rd) ''category'' = None)"
proof -
  have f: "get_prop query1 ''fields'' = JStr ''name,price''"
    and c: "get_prop query1 ''category'' = JStr ''A''"
    and m: "get_prop query1 ''minPrice'' = JStr ''10''"
    and s: "get_prop query1 ''sort'' = JStr ''price''"
    by (simp_all add: query1_def get_prop_def)
  have n: "Number env0 (JStr ''10'') = Fin 10"
    by (simp add: env0_def Number0_def)
  have sp: "split_comma ''name,price'' = [''name'', ''price'']"
    by simp
  have q: "query (request0\<lparr>query := query1\<rparr>) = query1"
    by simp
  have h: "truthy (get_prop (query (request0\<lparr>query := query1\<rparr>)) ''fields'') \<longrightarrow>
           typeof (get_prop (query (request0\<lparr>query := query1\<rparr>)) ''fields'') = ''string''"
    by (simp add: f)
  note inst = C1_query_translation [OF h, of env0 mem_api mem_empty, unfolded q]
  show ?thesis
    using inst by (auto simp: f c m s n)
qed

text \<open>
  Claim C1, counterexample to the claim as stated: with \<^verbatim>\<open>?category=\<close> the parameter is
  supplied (as the empty string), and the filter built does not require the category to
  equal it; the read is the unconstrained one.
\<close>

theorem C1_counterexample:
  "build_query env0 [(''category'', JStr [])] = Inr empty_read
   \<and> map_of (r_filter empty_read) ''category'' \<noteq> Some (JStr [])"
  by (simp add: build_query_def translate_def get_prop_def empty_read_def)

text \<open>
  Claim C9, amended. A parameter that is present with the empty string, the only falsy
  string, is translated exactly as if it were absent, for each of the four parameters;
  \<^verbatim>\<open>minPrice=0\<close> is the non-empty string \<^verbatim>\<open>"0"\<close>, which is truthy, and the price filter
  \<^verbatim>\<open>{ $gte: Number("0") }\<close> is applied.
\<close>

theorem C9_empty_value_as_absent:
  "translate e (JStr []) m s f = translate e JUndefined m s f
   \<and> translate e c (JStr []) s f = translate e c JUndefined s f
   \<and> translate e c m (JStr []) f = translate e c m JUndefined f
   \<and> translate e c m s (JStr []) = translate e c m s JUndefined
   \<and> translate e JUndefined (JStr ''0'') JUndefined JUndefined =
       Inr \<lparr>r_filter = [(''price'', JObj [(''$gte'', JNum (Number e (JStr ''0'')))])],
            r_sort = [], r_projection = []\<rparr>"
  by (simp add: translate_def)

text \<open>
  Claim C9, counterexample to the claim as stated: \<^verbatim>\<open>?minPrice=0\<close> builds a price filter,
  where the absent parameter builds none.
\<close>

theorem C9_counterexample:
  "build_query env0 [(''minPrice'', JStr ''0'')] =
     Inr \<lparr>r_filter = [(''price'', JObj [(''$gte'', JNum (Fin 0))])], r_sort = [], r_projection = []\<rparr>
   \<and> build_query env0 [] = Inr \<lparr>r_filter = [], r_sort = [], r_projection = []\<rparr>"
  by (simp add: build_query_def translate_def get_prop_def env0_def Number0_def)

section \<open>The access gate\<close>

text \<open>
  Claim C5, amended. On each of the four gated item routes, a missing or empty
  \<^verbatim>\<open>x-api-key\<close> header is answered 401, a non-empty header that differs from the configured
  secret is answered 403, in both cases without running the handler or calling the store,
  and a non-empty header equal to the secret runs the handler. The decision depends on
  the header and the secret only.
\<close>

theorem C5_access_gate:
  "post_item_route e db req st =
     (if x_api_key req = None \<or> x_api_key req = Some []
      then no_call (Response 401 (error_body ''API key is missing'')) st
      else if x_api_key req \<noteq> API_KEY e
      then no_call (Response 403 (error_body ''Invalid API key'')) st
      else post_item_p002b e db req st)
   \<and> put_item_route e db req st =
     (if x_api_key req = None \<or> x_api_key req = Some []
      then no_call (Response 401 (error_body ''API key is missing'')) st
      else if x_api_key req \<noteq> API_KEY e
      then no_call (Response 403 (error_body ''Invalid API key'')) st
      else put_item_p002b e db req st)
   \<and> patch_item_route e db req st =
     (if x_api_key req = None \<or> x_api_key req = Some []
      then no_call (Response 401 (error_body ''API key is missing'')) st
      else if x_api_key req \<noteq> API_KEY e
      then no_call (Response 403 (error_body ''Invalid API key'')) st
      else patch_item_p002b e db req st)
   \<and> delete_item_route e db req st =
     (if x_api_key req = None \<or> x_api_key req = Some []
      then no_call (Response 401 (error_body ''API key is missing'')) st
      else if x_api_key req \<noteq> API_KEY e
      then no_call (Response 403 (error_body ''Invalid API key'')) st
      else delete_item_p002b e db req st)"
  by (cases "x_api_key req"; cases "API_KEY e")
     (auto simp: post_item_route_def put_item_route_def patch_item_route_def
        delete_item_route_def gated_def checkApiKey_def opt_str_def Let_def)

text \<open>
  Claim C5, counterexample to the claim as stated: a header that is present, empty and
  different from the configured secret is answered 401, not 403.
\<close>

theorem C5_counterexample:
  "x_api_key (request0\<lparr>x_api_key := Some []\<rparr>) = Some []
   \<and> Some [] \<noteq> API_KEY env0
   \<and> checkApiKey env0 (request0\<lparr>x_api_key := Some []\<rparr>)
       = Some (Response 401 (error_body ''API key is missing''))"
  by (simp add: checkApiKey_def opt_str_def env0_def)

section \<open>A 400 answer comes before the store\<close>

lemma q_no_call: "quiet400 (no_call out st) st"
  by (simp add: quiet400_def no_call_def)

lemma q_try: "quiet400 r st \<Longrightarrow> quiet400 (try_catch r) st"
  by (cases "sent r") (auto simp: quiet400_def try_catch_def)

lemma q_trim: "(\<And>v'. quiet400 (k v') st) \<Longrightarrow> quiet400 (trim_then v st k) st"
  by (simp add: trim_then_def q_no_call split: sum.split)

lemma q_destructure: "(\<And>ob. quiet400 (k ob) st) \<Longrightarrow> quiet400 (destructure v st k) st"
  by (simp add: destructure_def q_no_call split: jsval.split)

lemma q_keys_length: "(\<And>n. quiet400 (k n) st) \<Longrightarrow> quiet400 (keys_length v st k) st"
  by (simp add: keys_length_def q_no_call split: jsval.split)

lemma q_if: "quiet400 a st \<Longrightarrow> quiet400 b st \<Longrightarrow> quiet400 (if c then a else b) st"
  by simp

lemma q_trimmed_field:
  "(\<And>u. quiet400 (k u) st) \<Longrightarrow> quiet400 (trimmed_field key msg v ud st k) st"
  by (simp add: trimmed_field_def q_no_call q_trim)

lemma q_find: "(\<And>x. status_of (k x) \<noteq> Some 400) \<Longrightarrow> quiet400 (find_step db st c rd k) st'"
  by (simp add: quiet400_def find_step_def one_call_def split: option.split)

lemma q_findOne: "(\<And>x. status_of (k x) \<noteq> Some 400) \<Longrightarrow> quiet400 (findOne_step db st c i k) st'"
  by (simp add: quiet400_def findOne_step_def one_call_def split: option.split)

lemma q_insertOne: "(\<And>x. status_of (k x) \<noteq> Some 400) \<Longrightarrow> quiet400 (insertOne_step db st c d k) st'"
  by (simp add: quiet400_def insertOne_step_def one_call_def split: option.split prod.split)

lemma q_updateOne: "(\<And>x. status_of (k x) \<noteq> Some 400) \<Longrightarrow> quiet400 (updateOne_step db st c i fs k) st'"
  by (simp add: quiet400_def updateOne_step_def one_call_def split: option.split prod.split)

lemma q_deleteOne: "(\<And>x. status_of (k x) \<noteq> Some 400) \<Longrightarrow> quiet400 (deleteOne_step db st c i k) st'"
  by (simp add: quiet400_def deleteOne_step_def one_call_def split: option.split prod.split)

lemma status_updated_or_404: "status_of (updated_or_404 a b n) = Some (if n = 0 then 404 else 200)"
  by (simp add: updated_or_404_def message_body_def)

lemma status_found_or_404: "status_of (found_or_404 a d) = Some (if d = None then 404 else 200)"
  by (simp add: found_or_404_def split: option.split)

lemma status_deleted_or_404:
  "status_of (deleted_or_404 a ok n) = (if n = 0 then Some 404 else status_of ok)"
  by (simp add: deleted_or_404_def)

lemmas q_intros = q_if q_no_call q_try q_trim q_destructure q_keys_length q_trimmed_field
  q_find q_findOne q_insertOne q_updateOne q_deleteOne

lemmas status_simps = status_updated_or_404 status_found_or_404 status_deleted_or_404

lemmas by_id_defs = get_product_def get_user_p001_def get_item_p002a_def get_product_p002b_def
  get_item_p002b_def get_by_id_def get_by_id_p002b_def put_product_p000_def put_product_p001_def
  put_user_p001_def patch_user_p001_def put_item_p002a_def patch_item_p002a_def
  set_name_p002a_def put_item_p002b_def patch_item_p002b_def delete_product_def
  delete_user_p001_def delete_item_p002a_def delete_by_id_def delete_item_p002b_def

text \<open>
  In every create and update handler an answer of 400 is given before any store call.
\<close>

lemma quiet400_create_handlers:
  "quiet400 (post_product_app e db req st) st"
  "quiet400 (post_product_p000 e db req st) st"
  "quiet400 (post_product_p001 e db req st) st"
  "quiet400 (post_product_p002b e db req st) st"
  "quiet400 (post_user_p001 e db req st) st"
  "quiet400 (post_item_p002a e db req st) st"
  "quiet400 (post_item_p002b e db req st) st"
  unfolding post_product_app_def post_product_p000_def post_product_p001_def
    post_product_p002b_def post_user_p001_def post_item_p002a_def post_item_p002b_def Let_def
  by (intro q_intros; simp add: status_simps)+

lemma quiet400_by_id_handlers:
  "quiet400 (delete_item_p002b e db req st) st"
  "quiet400 (get_product e db req st) st"
  "quiet400 (get_user_p001 e db req st) st"
  "quiet400 (get_item_p002a e db req st) st"
  "quiet400 (get_product_p002b e db req st) st"
  "quiet400 (get_item_p002b e db req st) st"
  "quiet400 (patch_user_p001 e db req st) st"
  "quiet400 (put_item_p002b e db req st) st"
  "quiet400 (patch_item_p002b e db req st) st"
  "quiet400 (delete_product e db req st) st"
  "quiet400 (delete_user_p001 e db req st) st"
  "quiet400 (delete_item_p002a e db req st) st"
  "quiet400 (put_product_p000 e db req st) st"
  "quiet400 (put_product_p001 e db req st) st"
  "quiet400 (put_user_p001 e db req st) st"
  "quiet400 (put_item_p002a e db req st) st"
  "quiet400 (patch_item_p002a e db req st) st"
  unfolding by_id_defs Let_def
  by (intro q_intros; simp add: status_simps message_body_def)+

lemma ball_Cons: "(\<forall>x \<in> set (a # xs). P x) = (P a \<and> (\<forall>x \<in> set xs. P x))"
  by simp

lemma ball_Nil: "(\<forall>x \<in> set []. P x) = True"
  by simp

lemma hex24_id1: "hex24 id1"
  by (simp add: hex24_def id1_def is_hex_def)

lemmas mem_defs = mem_api_def mem_find_def mem_findOne_def mem_insertOne_def mem_updateOne_def
  mem_deleteOne_def mem_empty_def docs_of_def with_docs_def has_id_def get_prop_def

section \<open>Updating a product without validation\<close>

text \<open>
  Claim C2 fails on the later revisions. PUT /api/products/:id of \<^verbatim>\<open>part_001\<close> 125-147 and
  \<^verbatim>\<open>part_002\<close> 144-166 tests the identifier only: whatever the body object holds under
  \<^verbatim>\<open>name\<close>, \<^verbatim>\<open>price\<close> and \<^verbatim>\<open>category\<close> (a number for the name, a negative price, nothing at
  all) is handed to \<^verbatim>\<open>updateOne\<close> as the fields to set, and a matching record is answered
  200. The part of the claim that does hold in every handler is that an answer of 400 is
  given before any store call (\<open>quiet400_create_handlers\<close>, \<open>quiet400_by_id_handlers\<close>).
\<close>

theorem C2_update_without_validation:
  "isValid e (params_id req) \<and> body req = JObj b
     \<and> db_updateOne db st productsCollection (ObjectId e (params_id req))
          (JObj [(''name'', get_prop b ''name''), (''price'', get_prop b ''price''),
                 (''category'', get_prop b ''category'')]) = Some (n, st')
     \<and> n \<noteq> 0 \<longrightarrow>
   sent (put_product_p001 e db req st) = Response 200 (message_body ''Product updated'')
   \<and> calls (put_product_p001 e db req st) =
       [(UpdateOne productsCollection (ObjectId e (params_id req))
           (JObj [(''name'', get_prop b ''name''), (''price'', get_prop b ''price''),
                  (''category'', get_prop b ''category'')]), MatchedCount n)]
   \<and> state (put_product_p001 e db req st) = st'"
  by (simp add: put_product_p001_def destructure_def Let_def updateOne_step_def one_call_def
      try_catch_def updated_or_404_def)

text \<open>
  Claim C2, the failing input: PUT /api/products/65a1b2c3d4e5f60718293a4b with
  \<^verbatim>\<open>{ "name": 7, "price": -3 }\<close> on \<^verbatim>\<open>part_002\<close>, the record being in the store: the answer is
  200 and the record holds the name 7, the price -3 and no category.
\<close>

theorem C2_update_without_validation_witness:
  "isValid env0 (params_id request0)
   \<and> sent (put_product_p001 env0 mem_api
        (request0\<lparr>body := JObj [(''name'', JNum (Fin 7)), (''price'', JNum (Fin (- 3)))]\<rparr>)
        (mem_empty\<lparr>m_products :=
           [[(''_id'', JOid (Oid id1)), (''name'', JStr ''Pen''), (''price'', JNum (Fin 1)),
             (''category'', JStr ''Office'')]]\<rparr>))
       = Response 200 (message_body ''Product updated'')
   \<and> m_products (state (put_product_p001 env0 mem_api
        (request0\<lparr>body := JObj [(''name'', JNum (Fin 7)), (''price'', JNum (Fin (- 3)))]\<rparr>)
        (mem_empty\<lparr>m_products :=
           [[(''_id'', JOid (Oid id1)), (''name'', JStr ''Pen''), (''price'', JNum (Fin 1)),
             (''category'', JStr ''Office'')]]\<rparr>)))
       = [[(''_id'', JOid (Oid id1)), (''name'', JNum (Fin 7)), (''price'', JNum (Fin (- 3))),
           (''category'', JUndefined)]]"
proof -
  let ?b = "[(''name'', JNum (Fin 7)), (''price'', JNum (Fin (- 3)))]"
  let ?req = "request0\<lparr>body := JObj ?b\<rparr>"
  let ?m = "mem_empty\<lparr>m_products :=
           [[(''_id'', JOid (Oid id1)), (''name'', JStr ''Pen''), (''price'', JNum (Fin 1)),
             (''category'', JStr ''Office'')]]\<rparr>"
  let ?m' = "mem_empty\<lparr>m_products :=
           [[(''_id'', JOid (Oid id1)), (''name'', JNum (Fin 7)), (''price'', JNum (Fin (- 3))),
             (''category'', JUndefined)]]\<rparr>"
  have v: "isValid env0 (params_id request0)" "isValid env0 (params_id ?req)"
    using hex24_id1 by (simp_all add: env0_def request0_def)
  have u: "db_updateOne mem_api ?m productsCollection (ObjectId env0 (params_id ?req))
          (JObj [(''name'', get_prop ?b ''name''), (''price'', get_prop ?b ''price''),
                 (''category'', get_prop ?b ''category'')]) = Some (1, ?m')"
    by (simp add: mem_defs env0_def request0_def)
  have "isValid env0 (params_id ?req) \<and> body ?req = JObj ?b
     \<and> db_updateOne mem_api ?m productsCollection (ObjectId env0 (params_id ?req))
          (JObj [(''name'', get_prop ?b ''name''), (''price'', get_prop ?b ''price''),
                 (''category'', get_prop ?b ''category'')]) = Some (1, ?m')
     \<and> (1::nat) \<noteq> 0"
    using v(2) u by simp
  from C2_update_without_validation
    [where e = env0 and req = ?req and b = ?b and db = mem_api and st = ?m and n = 1
       and st' = ?m', rule_format, OF this]
  show ?thesis using v(1) by simp
qed

section \<open>The identifier gate\<close>

lemma nf_no_call: "status_of out \<noteq> Some 404 \<Longrightarrow> not_found_iff (no_call out st) i"
  by (simp add: not_found_iff_def no_call_def)

lemma nf_try: "not_found_iff r i \<Longrightarrow> not_found_iff (try_catch r) i"
  by (cases "sent r") (auto simp: not_found_iff_def try_catch_def)

lemma nf_trim: "(\<And>v'. not_found_iff (k v') i) \<Longrightarrow> not_found_iff (trim_then v st k) i"
  by (simp add: trim_then_def nf_no_call split: sum.split)

lemma nf_destructure:
  "(\<And>ob. not_found_iff (k ob) i) \<Longrightarrow> not_found_iff (destructure v st k) i"
  by (simp add: destructure_def nf_no_call split: jsval.split)

lemma nf_keys_length:
  "(\<And>n. not_found_iff (k n) i) \<Longrightarrow> not_found_iff (keys_length v st k) i"
  by (simp add: keys_length_def nf_no_call split: jsval.split)

lemma nf_if: "not_found_iff a i \<Longrightarrow> not_found_iff b i \<Longrightarrow> not_found_iff (if c then a else b) i"
  by simp

lemma nf_trimmed_field:
  "(\<And>u. not_found_iff (k u) i) \<Longrightarrow> not_found_iff (trimmed_field key msg v ud st k) i"
  by (simp add: trimmed_field_def nf_no_call nf_trim error_body_def)

lemma nf_findOne: "not_found_iff (findOne_step db st c i (found_or_404 m)) i"
  by (simp add: not_found_iff_def findOne_step_def one_call_def status_found_or_404
      split: option.split)

lemma nf_updateOne: "not_found_iff (updateOne_step db st c i fs (updated_or_404 a b)) i"
  by (simp add: not_found_iff_def updateOne_step_def one_call_def status_updated_or_404
      split: option.split prod.split)

lemma nf_deleteOne:
  "status_of ok \<noteq> Some 404 \<Longrightarrow> not_found_iff (deleteOne_step db st c i (deleted_or_404 a ok)) i"
  by (simp add: not_found_iff_def deleteOne_step_def one_call_def status_deleted_or_404
      split: option.split prod.split)

lemmas nf_intros = nf_if nf_no_call nf_try nf_trim nf_destructure nf_keys_length
  nf_trimmed_field nf_findOne nf_updateOne nf_deleteOne

lemma not_found_handlers:
  "not_found_iff (get_product e db req st) (ObjectId e (params_id req))"
  "not_found_iff (get_user_p001 e db req st) (ObjectId e (params_id req))"
  "not_found_iff (get_item_p002a e db req st) (ObjectId e (params_id req))"
  "not_found_iff (get_product_p002b e db req st) (ObjectId e (params_id req))"
  "not_found_iff (get_item_p002b e db req st) (ObjectId e (params_id req))"
  "not_found_iff (patch_user_p001 e db req st) (ObjectId e (params_id req))"
  "not_found_iff (put_item_p002b e db req st) (ObjectId e (params_id req))"
  "not_found_iff (patch_item_p002b e db req st) (ObjectId e (params_id req))"
  "not_found_iff (delete_product e db req st) (ObjectId e (params_id req))"
  "not_found_iff (delete_user_p001 e db req st) (ObjectId e (params_id req))"
  "not_found_iff (delete_item_p002a e db req st) (ObjectId e (params_id req))"
  "not_found_iff (put_product_p000 e db req st) (ObjectId e (params_id req))"
  "not_found_iff (put_product_p001 e db req st) (ObjectId e (params_id req))"
  "not_found_iff (put_user_p001 e db req st) (ObjectId e (params_id req))"
  "not_found_iff (put_item_p002a e db req st) (ObjectId e (params_id req))"
  "not_found_iff (patch_item_p002a e db req st) (ObjectId e (params_id req))"
  unfolding by_id_defs Let_def
  by (intro nf_intros; simp add: error_body_def message_body_def)+

text \<open>An identifier that is not valid: the handlers that test it first.\<close>

lemma invalid_id_first:
  assumes "\<not> isValid e (params_id req)"
  shows "delete_item_p002b e db req st = no_call (Response 400 (error_body ''Invalid id'')) st"
    "get_product e db req st = no_call (Response 400 (error_body ''Invalid id'')) st"
    "get_user_p001 e db req st = no_call (Response 400 (error_body ''Invalid id'')) st"
    "get_item_p002a e db req st = no_call (Response 400 (error_body ''Invalid id'')) st"
    "get_product_p002b e db req st = no_call (Response 400 (error_body ''Invalid id'')) st"
    "get_item_p002b e db req st = no_call (Response 400 (error_body ''Invalid id'')) st"
    "patch_user_p001 e db req st = no_call (Response 400 (error_body ''Invalid id'')) st"
    "put_item_p002b e db req st = no_call (Response 400 (error_body ''Invalid id'')) st"
    "patch_item_p002b e db req st = no_call (Response 400 (error_body ''Invalid id'')) st"
    "delete_product e db req st = no_call (Response 400 (error_body ''Invalid id'')) st"
    "delete_user_p001 e db req st = no_call (Response 400 (error_body ''Invalid id'')) st"
    "delete_item_p002a e db req st = no_call (Response 400 (error_body ''Invalid id'')) st"
  using assms by (simp_all add: by_id_defs Let_def)

text \<open>
  The handlers that read the body first: with a body to read from, the answer is the same;
  without one the destructuring throws. No store call is made either way.
\<close>

lemma destructure_has_body:
  "has_body v \<Longrightarrow> (\<And>ob. k ob = r) \<Longrightarrow> destructure v st k = r"
  by (cases v) (simp_all add: destructure_def has_body_def)

lemma destructure_no_call:
  "(\<And>ob. k ob = no_call out st) \<Longrightarrow> calls (destructure v st k) = [] \<and> state (destructure v st k) = st"
  by (cases v) (simp_all add: destructure_def no_call_def)

lemma invalid_id_body_first:
  assumes "\<not> isValid e (params_id req)" and "has_body (body req)"
  shows "put_product_p000 e db req st = no_call (Response 400 (error_body ''Invalid id'')) st"
    "put_product_p001 e db req st = no_call (Response 400 (error_body ''Invalid id'')) st"
    "put_user_p001 e db req st = no_call (Response 400 (error_body ''Invalid id'')) st"
    "put_item_p002a e db req st = no_call (Response 400 (error_body ''Invalid id'')) st"
    "patch_item_p002a e db req st = no_call (Response 400 (error_body ''Invalid id'')) st"
  unfolding by_id_defs Let_def
  by (rule destructure_has_body [OF assms(2)], simp add: assms(1))+

lemma invalid_id_body_first_no_call:
  assumes "\<not> isValid e (params_id req)"
  shows "calls (put_product_p000 e db req st) = [] \<and> state (put_product_p000 e db req st) = st"
    "calls (put_product_p001 e db req st) = [] \<and> state (put_product_p001 e db req st) = st"
    "calls (put_user_p001 e db req st) = [] \<and> state (put_user_p001 e db req st) = st"
    "calls (put_item_p002a e db req st) = [] \<and> state (put_item_p002a e db req st) = st"
    "calls (patch_item_p002a e db req st) = [] \<and> state (patch_item_p002a e db req st) = st"
  unfolding by_id_defs Let_def
  by (rule destructure_no_call, simp add: assms)+

text \<open>
  Claim C4, amended. For every handler that addresses one record by identifier: with an
  identifier that is not valid the store is never called and the state is unchanged; the
  answer is then 400 \<^verbatim>\<open>Invalid id\<close>, for the handlers that read the request body first
  provided there is a body to read from. For every such handler but the DELETE handler of
  the gated revision, the answer is 404 exactly when the handler made one store call, on
  that identifier, and the store replied that no record matched (no document,
  \<^verbatim>\<open>matchedCount\<close> 0 or \<^verbatim>\<open>deletedCount\<close> 0). And whenever the answer is 400, for an identifier
  that is not valid or for a body that the handler's own tests refuse, no store call was
  made and the state is unchanged.
\<close>

theorem C4_identifier_gate:
  "(\<forall>h \<in> set (delete_item_p002b # by_id_handlers).
      \<not> isValid e (params_id req) \<longrightarrow>
        calls (h e db req st) = [] \<and> state (h e db req st) = st)
   \<and> (\<forall>h \<in> set (delete_item_p002b # id_first_handlers).
        \<not> isValid e (params_id req) \<longrightarrow>
          sent (h e db req st) = Response 400 (error_body ''Invalid id''))
   \<and> (\<forall>h \<in> set body_first_handlers.
        \<not> isValid e (params_id req) \<and> has_body (body req) \<longrightarrow>
          sent (h e db req st) = Response 400 (error_body ''Invalid id''))
   \<and> (\<forall>h \<in> set by_id_handlers.
        status_of (sent (h e db req st)) = Some 404 \<longleftrightarrow>
          (\<exists>c rp. calls (h e db req st) = [(c, rp)]
             \<and> on_id (ObjectId e (params_id req)) c \<and> no_match rp))
   \<and> (\<forall>h \<in> set (delete_item_p002b # by_id_handlers).
        status_of (sent (h e db req st)) = Some 400 \<longrightarrow>
          calls (h e db req st) = [] \<and> state (h e db req st) = st)"
proof (intro conjI)
  show "\<forall>h \<in> set (delete_item_p002b # by_id_handlers).
      \<not> isValid e (params_id req) \<longrightarrow>
        calls (h e db req st) = [] \<and> state (h e db req st) = st"
    unfolding by_id_handlers_def id_first_handlers_def body_first_handlers_def append.simps
      ball_Cons ball_Nil
    by (simp add: invalid_id_first invalid_id_body_first_no_call no_call_def)
  show "\<forall>h \<in> set (delete_item_p002b # id_first_handlers).
        \<not> isValid e (params_id req) \<longrightarrow>
          sent (h e db req st) = Response 400 (error_body ''Invalid id'')"
    unfolding id_first_handlers_def ball_Cons ball_Nil
    by (simp add: invalid_id_first no_call_def)
  show "\<forall>h \<in> set body_first_handlers.
        \<not> isValid e (params_id req) \<and> has_body (body req) \<longrightarrow>
          sent (h e db req st) = Response 400 (error_body ''Invalid id'')"
    unfolding body_first_handlers_def ball_Cons ball_Nil
    by (simp add: invalid_id_body_first no_call_def)
  show "\<forall>h \<in> set by_id_handlers.
        status_of (sent (h e db req st)) = Some 404 \<longleftrightarrow>
          (\<exists>c rp. calls (h e db req st) = [(c, rp)]
             \<and> on_id (ObjectId e (params_id req)) c \<and> no_match rp)"
    unfolding by_id_handlers_def id_first_handlers_def body_first_handlers_def append.simps
      ball_Cons ball_Nil
    by (intro conjI TrueI not_found_handlers [unfolded not_found_iff_def])
  show "\<forall>h \<in> set (delete_item_p002b # by_id_handlers).
        status_of (sent (h e db req st)) = Some 400 \<longrightarrow>
          calls (h e db req st) = [] \<and> state (h e db req st) = st"
    unfolding by_id_handlers_def id_first_handlers_def body_first_handlers_def append.simps
      ball_Cons ball_Nil
    by (intro conjI TrueI quiet400_by_id_handlers [unfolded quiet400_def])
qed

text \<open>
  Claim C4, witness: GET /api/products/:id on the empty store with a valid identifier (one
  lookup, no document, 404) and with the identifier \<^verbatim>\<open>42\<close> (400, no store call);
  PUT /api/products/:id of \<^verbatim>\<open>part_000\<close> with the identifier \<^verbatim>\<open>42\<close> and the empty object as
  body (400), and with a valid identifier and that body (400, no store call).
\<close>

theorem C4_identifier_gate_witness:
  "isValid env0 (params_id request0)
   \<and> status_of (sent (get_product env0 mem_api request0 mem_empty)) = Some 404
   \<and> calls (get_product env0 mem_api request0 mem_empty)
       = [(FindOne productsCollection (Oid id1), Doc None)]
   \<and> \<not> isValid env0 (params_id (request0\<lparr>params_id := ''42''\<rparr>))
   \<and> sent (get_product env0 mem_api (request0\<lparr>params_id := ''42''\<rparr>) mem_empty)
       = Response 400 (error_body ''Invalid id'')
   \<and> calls (get_product env0 mem_api (request0\<lparr>params_id := ''42''\<rparr>) mem_empty) = []
   \<and> has_body (body (request0\<lparr>params_id := ''42''\<rparr>))
   \<and> sent (put_product_p000 env0 mem_api (request0\<lparr>params_id := ''42''\<rparr>) mem_empty)
       = Response 400 (error_body ''Invalid id'')
   \<and> status_of (sent (put_product_p000 env0 mem_api request0 mem_empty)) = Some 400
   \<and> calls (put_product_p000 env0 mem_api request0 mem_empty) = []"
proof -
  let ?bad = "request0\<lparr>params_id := ''42''\<rparr>"
  note inst = C4_identifier_gate [where e = env0 and db = mem_api and st = mem_empty]
  have v: "isValid env0 (params_id request0)"
    by (simp add: env0_def request0_def hex24_id1)
  have w: "\<not> isValid env0 (params_id ?bad)"
    by (simp add: env0_def hex24_def)
  have hb: "has_body (body ?bad)"
    by (simp add: has_body_def request0_def)
  have c: "calls (get_product env0 mem_api request0 mem_empty)
       = [(FindOne productsCollection (Oid id1), Doc None)]"
    using v by (simp add: get_product_def get_by_id_def findOne_step_def try_catch_def
        one_call_def found_or_404_def mem_defs env0_def request0_def)
  have s4: "status_of (sent (put_product_p000 env0 mem_api request0 mem_empty)) = Some 400"
    using v by (simp add: put_product_p000_def destructure_def no_call_def get_prop_def
        request0_def)
  have m1: "get_product \<in> set by_id_handlers"
    and m2: "get_product \<in> set (delete_item_p002b # id_first_handlers)"
    and m3: "get_product \<in> set (delete_item_p002b # by_id_handlers)"
    and m4: "put_product_p000 \<in> set body_first_handlers"
    and m5: "put_product_p000 \<in> set (delete_item_p002b # by_id_handlers)"
    by (simp_all add: by_id_handlers_def id_first_handlers_def body_first_handlers_def)
  from bspec [OF inst [where req = request0, THEN conjunct2, THEN conjunct2, THEN conjunct2,
        THEN conjunct1] m1] c
  have s: "status_of (sent (get_product env0 mem_api request0 mem_empty)) = Some 404"
    by (simp add: env0_def request0_def)
  from bspec [OF inst [where req = ?bad, THEN conjunct2, THEN conjunct1] m2] w
  have i1: "sent (get_product env0 mem_api ?bad mem_empty)
       = Response 400 (error_body ''Invalid id'')"
    by simp
  from bspec [OF inst [where req = ?bad, THEN conjunct1] m3] w
  have i2: "calls (get_product env0 mem_api ?bad mem_empty) = []"
    by simp
  from bspec [OF inst [where req = ?bad, THEN conjunct2, THEN conjunct2, THEN conjunct1] m4] w hb
  have i3: "sent (put_product_p000 env0 mem_api ?bad mem_empty)
       = Response 400 (error_body ''Invalid id'')"
    by simp
  from bspec [OF inst [where req = request0, THEN conjunct2, THEN conjunct2, THEN conjunct2,
        THEN conjunct2] m5] s4
  have i4: "calls (put_product_p000 env0 mem_api request0 mem_empty) = []"
    by simp
  show ?thesis using v w hb c s s4 i1 i2 i3 i4 by simp
qed

text \<open>
  Claim C4, counterexample to the claim as stated: PUT /api/products/:id of \<^verbatim>\<open>part_000\<close> with
  a valid identifier that matches no record and an empty body is answered 400, not 404, and
  the store is not consulted.
\<close>

theorem C4_counterexample:
  "isValid env0 (params_id request0)
   \<and> db_findOne mem_api mem_empty productsCollection (ObjectId env0 (params_id request0))
       = Some None
   \<and> sent (put_product_p000 env0 mem_api request0 mem_empty)
       = Response 400 (error_body ''At least one field must be provided'')
   \<and> calls (put_product_p000 env0 mem_api request0 mem_empty) = []"
  using hex24_id1
  by (simp add: put_product_p000_def destructure_def no_call_def mem_defs env0_def request0_def)

section \<open>Store errors\<close>

text \<open>Inside try/catch every error ends as the generic 500 response.\<close>

lemma try_catch_sent:
  "sent (try_catch r) =
     (case sent r of Unhandled err \<Rightarrow> Response 500 (error_body ''Database error'')
      | Response n b \<Rightarrow> Response n b)"
  by (simp add: try_catch_def split: outcome.split)

lemma list_items_store_error:
  "db_find db st itemsCollection empty_read = None \<Longrightarrow>
   sent (list_items e db req st) = Response 500 (error_body ''Database error'')"
  by (simp add: list_items_def find_step_def one_call_def try_catch_def)

text \<open>
  Claim C7 fails on the gated revision. GET /api/items and GET /api/items/:id and
  GET /api/products/:id of that revision (\<^verbatim>\<open>part_002\<close> 506-525, 469-483) have no try/catch: when
  the store rejects the read, no response is sent by the handler and the error leaves it,
  where the same handlers of the earlier revisions answer the generic 500
  (\<open>list_items_store_error\<close>).
\<close>

theorem C7_store_error_escapes:
  "(db_find db st itemsCollection empty_read = None \<longrightarrow>
      sent (list_items_p002b e db req st) = Unhandled StoreError)
   \<and> (isValid e (params_id req)
        \<and> db_findOne db st itemsCollection (ObjectId e (params_id req)) = None \<longrightarrow>
      sent (get_item_p002b e db req st) = Unhandled StoreError)
   \<and> (isValid e (params_id req)
        \<and> db_findOne db st productsCollection (ObjectId e (params_id req)) = None \<longrightarrow>
      sent (get_product_p002b e db req st) = Unhandled StoreError)"
  by (simp add: list_items_p002b_def get_item_p002b_def get_product_p002b_def
      get_by_id_p002b_def find_step_def findOne_step_def one_call_def)

text \<open>
  Claim C7, the failing input: GET /api/items of the gated revision while the store rejects
  every operation.
\<close>

theorem C7_store_error_escapes_witness:
  "db_find mem_api (mem_empty\<lparr>m_down := True\<rparr>) itemsCollection empty_read = None
   \<and> sent (list_items_p002b env0 mem_api request0 (mem_empty\<lparr>m_down := True\<rparr>))
       = Unhandled StoreError"
proof -
  have d: "db_find mem_api (mem_empty\<lparr>m_down := True\<rparr>) itemsCollection empty_read = None"
    by (simp add: mem_api_def mem_find_def)
  from C7_store_error_escapes
    [where db = mem_api and st = "mem_empty\<lparr>m_down := True\<rparr>" and e = env0 and req = request0,
      THEN conjunct1] d
  show ?thesis by simp
qed

section \<open>Deleting what is not there\<close>

text \<open>
  Claim C8 fails on the gated revision. DELETE /api/items/:id of \<^verbatim>\<open>part_002\<close> 578-588, with
  the right key and a valid identifier, answers 204 when the store reports that nothing was
  deleted: the reply of \<^verbatim>\<open>deleteOne\<close> is not read, where every other DELETE handler
  answers 404 (\<open>not_found_handlers\<close>).
\<close>

theorem C8_delete_without_match:
  "x_api_key req = Some k \<and> k \<noteq> [] \<and> API_KEY e = Some k \<and> isValid e (params_id req)
     \<and> db_deleteOne db st itemsCollection (ObjectId e (params_id req)) = Some (0, st') \<longrightarrow>
   sent (delete_item_route e db req st) = Response 204 JUndefined
   \<and> calls (delete_item_route e db req st)
       = [(DeleteOne itemsCollection (ObjectId e (params_id req)), DeletedCount 0)]
   \<and> state (delete_item_route e db req st) = st'"
  by (simp add: delete_item_route_def gated_def checkApiKey_def opt_str_def delete_item_p002b_def
      deleteOne_step_def one_call_def)

text \<open>
  Claim C8, the failing input: DELETE /api/items/65a1b2c3d4e5f60718293a4b with the configured
  key on a store that holds no record.
\<close>

theorem C8_delete_without_match_witness:
  "x_api_key (request0\<lparr>x_api_key := Some ''s3cret''\<rparr>) = Some ''s3cret''
   \<and> API_KEY env0 = Some ''s3cret''
   \<and> isValid env0 (params_id (request0\<lparr>x_api_key := Some ''s3cret''\<rparr>))
   \<and> db_deleteOne mem_api mem_empty itemsCollection
        (ObjectId env0 (params_id (request0\<lparr>x_api_key := Some ''s3cret''\<rparr>))) = Some (0, mem_empty)
   \<and> sent (delete_item_route env0 mem_api (request0\<lparr>x_api_key := Some ''s3cret''\<rparr>) mem_empty)
       = Response 204 JUndefined"
proof -
  have h: "x_api_key (request0\<lparr>x_api_key := Some ''s3cret''\<rparr>) = Some ''s3cret''"
    "''s3cret'' \<noteq> []"
    "API_KEY env0 = Some ''s3cret''"
    "isValid env0 (params_id (request0\<lparr>x_api_key := Some ''s3cret''\<rparr>))"
    "db_deleteOne mem_api mem_empty itemsCollection
        (ObjectId env0 (params_id (request0\<lparr>x_api_key := Some ''s3cret''\<rparr>))) = Some (0, mem_empty)"
    using hex24_id1 by (simp_all add: env0_def request0_def mem_defs)
  from C8_delete_without_match
    [where req = "request0\<lparr>x_api_key := Some ''s3cret''\<rparr>" and k = "''s3cret''" and e = env0
       and db = mem_api and st = mem_empty and st' = mem_empty] h
  show ?thesis by simp
qed

section \<open>Creating products\<close>

lemma strip_Nil: "strip ts [] = []"
proof -
  have "find (\<lambda>t. t \<noteq> [] \<and> take (length t) [] = t) ts = None"
    by (auto simp: find_None_iff)
  then show ?thesis by (subst strip.simps) simp
qed

lemma is_space_token: "is_space c \<Longrightarrow> [c] \<in> set white_space"
  by (auto simp: is_space_def white_space_def)

lemma strip_spaces: "list_all is_space s \<Longrightarrow> strip white_space s = []"
proof (induction white_space s rule: strip.induct)
  case (1 s)
  show ?case
  proof (cases "find (\<lambda>t. t \<noteq> [] \<and> take (length t) s = t) white_space")
    case None
    have "s = []"
    proof (cases s)
      case Nil
      then show ?thesis .
    next
      case (Cons c cs)
      with "1.prems" have "[c] \<in> set white_space"
        by (simp add: is_space_token)
      with None Cons show ?thesis
        by (auto simp: find_None_iff)
    qed
    then show ?thesis using None by (simp add: strip.simps)
  next
    case (Some t)
    from "1.prems" have "list_all is_space (drop (length t) s)"
      by (auto simp: list_all_iff dest: in_set_dropD)
    from "1.hyps" [OF Some this] Some show ?thesis
      by (subst strip.simps) simp
  qed
qed

lemma trim_spaces: "list_all is_space s \<Longrightarrow> trim s = []"
  by (simp add: trim_def strip_spaces strip_Nil)

lemmas trim_eval = trim_def strip.simps white_space_def

lemma typeof_number_iff: "typeof v = ''number'' \<longleftrightarrow> (\<exists>p. v = JNum p)"
  by (cases v) simp_all

text \<open>
  POST /api/products of \<^verbatim>\<open>app.js\<close>: a body whose \<^verbatim>\<open>name\<close> and \<^verbatim>\<open>category\<close> are non-empty
  strings and whose \<^verbatim>\<open>price\<close> is a number that is neither NaN nor below zero is stored
  trimmed, with the creation time; every other body that can be read is answered 400.
\<close>

lemma post_product_app_accepts:
  assumes "body req = JObj b"
    and "get_prop b ''name'' = JStr n" "n \<noteq> []"
    and "get_prop b ''category'' = JStr c" "c \<noteq> []"
    and "get_prop b ''price'' = JNum p" "p \<noteq> NaN" "\<not> num_lt p (Fin 0)"
  shows "post_product_app e db req st =
     try_catch (insertOne_step db st productsCollection
       [(''name'', JStr (trim n)), (''price'', JNum p), (''category'', JStr (trim c)),
        (''createdAt'', JDate (now e))]
       (\<lambda>insertedId. Response 201
          (JObj [(''message'', JStr ''Product created''), (''id'', JOid insertedId),
                 (''product'', JObj
                    [(''_id'', JOid insertedId), (''name'', JStr (trim n)), (''price'', JNum p),
                     (''category'', JStr (trim c)), (''createdAt'', JDate (now e))])])))"
  using assms
  by (simp add: post_product_app_def destructure_def Let_def trim_then_def call_trim_def
      lt_zero_def)

lemma post_product_app_rejects:
  assumes "body req = JObj b"
    and "\<not> (\<exists>n c p. get_prop b ''name'' = JStr n \<and> n \<noteq> []
            \<and> get_prop b ''category'' = JStr c \<and> c \<noteq> []
            \<and> get_prop b ''price'' = JNum p \<and> p \<noteq> NaN \<and> \<not> num_lt p (Fin 0))"
  shows "status_of (sent (post_product_app e db req st)) = Some 400"
proof -
  have "\<not> truthy (get_prop b ''name'') \<or> get_prop b ''price'' = JUndefined
      \<or> \<not> truthy (get_prop b ''category'')
      \<or> typeof (get_prop b ''name'') \<noteq> ''string'' \<or> typeof (get_prop b ''category'') \<noteq> ''string''
      \<or> typeof (get_prop b ''price'') \<noteq> ''number'' \<or> get_prop b ''price'' = JNum NaN
      \<or> lt_zero (get_prop b ''price'')"
    using assms(2)
    by (auto simp: typeof_string_iff typeof_number_iff lt_zero_def)
  then show ?thesis
    by (auto simp: post_product_app_def destructure_def assms(1) Let_def no_call_def)
qed

text \<open>
  Claim C3 fails on the later revisions. POST /api/products of \<^verbatim>\<open>part_001\<close> 94-120 and
  \<^verbatim>\<open>part_002\<close> 113-139 accepts every price that is not \<^verbatim>\<open>undefined\<close>: with \<^verbatim>\<open>name\<close> and
  \<^verbatim>\<open>category\<close> non-empty strings the record is inserted with that price and the answer is
  201, where the handler of \<^verbatim>\<open>app.js\<close> requires a number that is not below zero
  (\<open>post_product_app_accepts\<close>, \<open>post_product_app_rejects\<close>).
\<close>

theorem C3_create_without_price_check:
  "body req = JObj b
     \<and> get_prop b ''name'' = JStr n \<and> n \<noteq> []
     \<and> get_prop b ''category'' = JStr c \<and> c \<noteq> []
     \<and> get_prop b ''price'' \<noteq> JUndefined
     \<and> db_insertOne db st productsCollection
          [(''name'', JStr (trim n)), (''price'', get_prop b ''price''),
           (''category'', JStr (trim c)), (''createdAt'', JDate (now e))] = Some (i, st') \<longrightarrow>
   status_of (sent (post_product_p001 e db req st)) = Some 201
   \<and> calls (post_product_p001 e db req st) =
       [(InsertOne productsCollection
           [(''name'', JStr (trim n)), (''price'', get_prop b ''price''),
            (''category'', JStr (trim c)), (''createdAt'', JDate (now e))], InsertedId i)]
   \<and> state (post_product_p001 e db req st) = st'"
  by (simp add: post_product_p001_def destructure_def Let_def trim_then_def call_trim_def
      insertOne_step_def one_call_def try_catch_def)

text \<open>
  Claim C3, the failing input: POST /api/products with
  \<^verbatim>\<open>{ "name": "Pen", "price": -5, "category": "Office" }\<close> on \<^verbatim>\<open>part_002\<close>.
\<close>

theorem C3_create_without_price_check_witness:
  "get_prop [(''name'', JStr ''Pen''), (''price'', JNum (Fin (- 5))),
             (''category'', JStr ''Office'')] ''price''
     = JNum (Fin (- 5))
   \<and> status_of (sent (post_product_p001 env0 mem_api
        (request0\<lparr>body := JObj [(''name'', JStr ''Pen''), (''price'', JNum (Fin (- 5))),
                                 (''category'', JStr ''Office'')]\<rparr>) mem_empty)) = Some 201
   \<and> map fst (calls (post_product_p001 env0 mem_api
        (request0\<lparr>body := JObj [(''name'', JStr ''Pen''), (''price'', JNum (Fin (- 5))),
                                 (''category'', JStr ''Office'')]\<rparr>) mem_empty))
       = [InsertOne productsCollection
            [(''name'', JStr ''Pen''), (''price'', JNum (Fin (- 5))),
             (''category'', JStr ''Office''), (''createdAt'', JDate 1769126400000)]]"
proof -
  let ?b = "[(''name'', JStr ''Pen''), (''price'', JNum (Fin (- 5))),
             (''category'', JStr ''Office'')]"
  let ?req = "request0\<lparr>body := JObj ?b\<rparr>"
  let ?doc = "[(''name'', JStr ''Pen''), (''price'', JNum (Fin (- 5))),
               (''category'', JStr ''Office''), (''createdAt'', JDate 1769126400000)]"
  have t: "trim ''Pen'' = ''Pen''" "trim ''Office'' = ''Office''"
    by (simp_all add: trim_eval)
  have ins: "db_insertOne mem_api mem_empty productsCollection ?doc
      = Some (Oid (hex_pad 24 0), with_docs (mem_empty\<lparr>m_next := Suc 0\<rparr>) productsCollection
           [(''_id'', JOid (Oid (hex_pad 24 0))) # ?doc])"
    by (simp add: mem_api_def mem_insertOne_def mem_empty_def docs_of_def Let_def)
  from C3_create_without_price_check
    [where req = ?req and b = ?b and n = "''Pen''" and c = "''Office''" and e = env0
       and db = mem_api and st = mem_empty and i = "Oid (hex_pad 24 0)"
       and st' = "with_docs (mem_empty\<lparr>m_next := Suc 0\<rparr>) productsCollection
           [(''_id'', JOid (Oid (hex_pad 24 0))) # ?doc]"]
    ins
  show ?thesis by (simp add: get_prop_def env0_def t)
qed

section \<open>The product invariant\<close>

text \<open>
  Claim C6 fails on names of white space. POST /api/products of \<^verbatim>\<open>app.js\<close> tests that
  \<^verbatim>\<open>name\<close> is non-empty before it trims it, so a name made of white space only passes every
  check and the record handed to \<^verbatim>\<open>insertOne\<close> has the empty name.
\<close>

theorem C6_blank_name_stored:
  "body req = JObj b
     \<and> get_prop b ''name'' = JStr n \<and> n \<noteq> [] \<and> list_all is_space n
     \<and> get_prop b ''category'' = JStr c \<and> c \<noteq> []
     \<and> get_prop b ''price'' = JNum (Fin x) \<and> 0 \<le> x \<longrightarrow>
   map fst (calls (post_product_app e db req st)) =
     [InsertOne productsCollection
        [(''name'', JStr []), (''price'', JNum (Fin x)), (''category'', JStr (trim c)),
         (''createdAt'', JDate (now e))]]"
proof (intro impI, elim conjE)
  assume a: "body req = JObj b" "get_prop b ''name'' = JStr n" "n \<noteq> []" "list_all is_space n"
    "get_prop b ''category'' = JStr c" "c \<noteq> []"
    "get_prop b ''price'' = JNum (Fin x)" "0 \<le> x"
  have "\<not> num_lt (Fin x) (Fin 0)" using a(8) by simp
  from post_product_app_accepts [OF a(1,2,3,5,6,7) _ this, of e db st]
  show "map fst (calls (post_product_app e db req st)) =
     [InsertOne productsCollection
        [(''name'', JStr []), (''price'', JNum (Fin x)), (''category'', JStr (trim c)),
         (''createdAt'', JDate (now e))]]"
    by (simp add: trim_spaces [OF a(4)] try_catch_def insertOne_step_def one_call_def
        split: option.split prod.split outcome.split)
qed

text \<open>
  Claim C6, the failing input: POST /api/products with
  \<^verbatim>\<open>{ "name": "  ", "price": 1, "category": "A" }\<close> on \<^verbatim>\<open>app.js\<close>.
\<close>

theorem C6_blank_name_stored_witness:
  "list_all is_space ''  ''
   \<and> map fst (calls (post_product_app env0 mem_api
        (request0\<lparr>body := JObj [(''name'', JStr ''  ''), (''price'', JNum (Fin 1)),
                                 (''category'', JStr ''A'')]\<rparr>) mem_empty))
       = [InsertOne productsCollection
            [(''name'', JStr []), (''price'', JNum (Fin 1)), (''category'', JStr ''A''),
             (''createdAt'', JDate 1769126400000)]]"
proof -
  let ?b = "[(''name'', JStr ''  ''), (''price'', JNum (Fin 1)), (''category'', JStr ''A'')]"
  let ?req = "request0\<lparr>body := JObj ?b\<rparr>"
  have sp: "list_all is_space ''  ''"
    by (simp add: is_space_def)
  have t: "trim ''A'' = ''A''"
    by (simp add: trim_eval)
  from C6_blank_name_stored
    [where req = ?req and b = ?b and n = "''  ''" and c = "''A''" and x = 1 and e = env0
       and db = mem_api and st = mem_empty] sp
  show ?thesis by (simp add: get_prop_def env0_def t)
qed

section \<open>PATCH with the body as the update\<close>

lemma get_prop_assign: "get_prop (assign d k v) k' = (if k' = k then v else get_prop d k')"
  by (simp add: get_prop_def map_of_assign)

lemma get_prop_set_fields_other:
  "k \<notin> fst ` set fs \<Longrightarrow> get_prop (set_fields fs d) k = get_prop d k"
  by (induction fs arbitrary: d) (auto simp: get_prop_assign)

lemma get_prop_set_fields:
  "distinct (map fst fs) \<Longrightarrow> (k, v) \<in> set fs \<Longrightarrow> get_prop (set_fields fs d) k = v"
proof (induction fs arbitrary: d)
  case Nil
  then show ?case by simp
next
  case (Cons a fs)
  obtain k' v' where a: "a = (k', v')" by (cases a)
  show ?case
  proof (cases "(k, v) = a")
    case True
    with Cons.prems a have "k \<notin> fst ` set fs" by auto
    with True a show ?thesis
      by (simp add: get_prop_set_fields_other get_prop_assign)
  next
    case False
    with Cons a show ?thesis by auto
  qed
qed

text \<open>
  Claim C10. In the gated revision, PATCH /api/items/:id with a valid identifier makes one
  store call, \<^verbatim>\<open>updateOne\<close> on that identifier with the request body itself as the fields to
  set, whatever the body is; it never answers 400, and the answer is read off the store's
  reply alone. On the reference store with a matching record and an object as body the
  answer is 200 and the record is rewritten with the fields of the body, each field of a
  body with distinct keys holding the supplied value afterwards.
\<close>

theorem C10_patch_writes_body:
  "(isValid e (params_id req) \<longrightarrow>
      map fst (calls (patch_item_p002b e db req st))
        = [UpdateOne itemsCollection (ObjectId e (params_id req)) (body req)]
      \<and> status_of (sent (patch_item_p002b e db req st)) \<noteq> Some 400
      \<and> sent (patch_item_p002b e db req st) =
          (case db_updateOne db st itemsCollection (ObjectId e (params_id req)) (body req) of
             None \<Rightarrow> Unhandled StoreError
           | Some (matchedCount, st') \<Rightarrow>
               if matchedCount = 0 then Response 404 (error_body ''Item not found'')
               else Response 200 (message_body ''Item partially updated'')))
   \<and> (isValid e (params_id req) \<and> body req = JObj fs \<and> \<not> m_down m
        \<and> list_ex (has_id (ObjectId e (params_id req))) (m_items m) \<longrightarrow>
      sent (patch_item_p002b e mem_api req m) = Response 200 (message_body ''Item partially updated'')
      \<and> m_items (state (patch_item_p002b e mem_api req m))
          = update_first (ObjectId e (params_id req)) fs (m_items m))
   \<and> (\<forall>d k v. distinct (map fst fs) \<and> (k, v) \<in> set fs \<longrightarrow>
        get_prop (set_fields fs d) k = v)"
  by (auto simp: patch_item_p002b_def updateOne_step_def one_call_def updated_or_404_def
      mem_api_def mem_updateOne_def docs_of_def with_docs_def get_prop_set_fields
      split: option.split prod.split)

text \<open>
  Claim C10, witness: a body with a number for \<^verbatim>\<open>name\<close> and a field outside the item shape
  is written as it is, and the empty body is answered 200.
\<close>

theorem C10_patch_writes_body_witness:
  "isValid env0 (params_id request0)
   \<and> list_ex (has_id (ObjectId env0 (params_id request0)))
        (m_items (mem_empty\<lparr>m_items := [[(''_id'', JOid (Oid id1)), (''name'', JStr ''old'')]]\<rparr>))
   \<and> sent (patch_item_p002b env0 mem_api
        (request0\<lparr>body := JObj [(''name'', JNum (Fin 7)), (''admin'', JBool True)]\<rparr>)
        (mem_empty\<lparr>m_items := [[(''_id'', JOid (Oid id1)), (''name'', JStr ''old'')]]\<rparr>))
       = Response 200 (message_body ''Item partially updated'')
   \<and> m_items (state (patch_item_p002b env0 mem_api
        (request0\<lparr>body := JObj [(''name'', JNum (Fin 7)), (''admin'', JBool True)]\<rparr>)
        (mem_empty\<lparr>m_items := [[(''_id'', JOid (Oid id1)), (''name'', JStr ''old'')]]\<rparr>)))
       = [[(''_id'', JOid (Oid id1)), (''name'', JNum (Fin 7)), (''admin'', JBool True)]]
   \<and> sent (patch_item_p002b env0 mem_api request0
        (mem_empty\<lparr>m_items := [[(''_id'', JOid (Oid id1)), (''name'', JStr ''old'')]]\<rparr>))
       = Response 200 (message_body ''Item partially updated'')"
proof -
  let ?m = "mem_empty\<lparr>m_items := [[(''_id'', JOid (Oid id1)), (''name'', JStr ''old'')]]\<rparr>"
  let ?fs = "[(''name'', JNum (Fin 7)), (''admin'', JBool True)]"
  let ?req = "request0\<lparr>body := JObj ?fs\<rparr>"
  have v: "isValid env0 (params_id request0)" "isValid env0 (params_id ?req)"
    using hex24_id1 by (simp_all add: env0_def request0_def)
  have i: "ObjectId env0 (params_id request0) = Oid id1" "ObjectId env0 (params_id ?req) = Oid id1"
    by (simp_all add: env0_def request0_def)
  have x: "list_ex (has_id (Oid id1)) (m_items ?m)" "\<not> m_down ?m"
    by (simp_all add: has_id_def get_prop_def mem_empty_def)
  have u: "update_first (Oid id1) ?fs (m_items ?m)
      = [[(''_id'', JOid (Oid id1)), (''name'', JNum (Fin 7)), (''admin'', JBool True)]]"
    by (simp add: has_id_def get_prop_def)
  have b: "body ?req = JObj ?fs" "body request0 = JObj []"
    by (simp_all add: request0_def)
  note one = C10_patch_writes_body
    [where e = env0 and req = ?req and fs = ?fs and m = ?m and db = mem_api and st = ?m,
      THEN conjunct2, THEN conjunct1, rule_format, unfolded i,
      OF conjI [OF v(2) conjI [OF b(1) conjI [OF x(2) x(1)]]]]
  note two = C10_patch_writes_body
    [where e = env0 and req = request0 and fs = "[]" and m = ?m and db = mem_api and st = ?m,
      THEN conjunct2, THEN conjunct1, rule_format, unfolded i,
      OF conjI [OF v(1) conjI [OF b(2) conjI [OF x(2) x(1)]]]]
  show ?thesis
    using v(1) x(1) one two by (simp add: i u)
qed

section \<open>Creating a product in the first revision; a listing on the reference store\<close>

text \<open>
  The filter composition example: with prices 5, 15, 25 and categories A, B, A in the
  reference store, \<^verbatim>\<open>?category=A&minPrice=10&sort=price\<close> answers the one record of price 25.
\<close>

lemma filter_composition_example:
  "sent (list_products_query env0 mem_api
     (request0\<lparr>query := [(''category'', JStr ''A''), (''minPrice'', JStr ''10''),
                          (''sort'', JStr ''price'')]\<rparr>)
     (mem_empty\<lparr>m_products :=
        [[(''_id'', JOid (Oid ''1'')), (''price'', JNum (Fin 5)), (''category'', JStr ''A'')],
         [(''_id'', JOid (Oid ''2'')), (''price'', JNum (Fin 15)), (''category'', JStr ''B'')],
         [(''_id'', JOid (Oid ''3'')), (''price'', JNum (Fin 25)), (''category'', JStr ''A'')]]\<rparr>))
   = Response 200 (JObj [(''count'', JNum (Fin 1)),
       (''products'', JArr [JObj [(''_id'', JOid (Oid ''3'')), (''price'', JNum (Fin 25)),
                                  (''category'', JStr ''A'')]])])"
  by (simp add: list_products_query_def build_query_def translate_def get_prop_def env0_def
      Number0_def find_step_def one_call_def try_catch_def mem_api_def mem_find_def mem_empty_def
      docs_of_def matches_def cond_holds_def sorted_docs_def price_of_def project_def count_of_def)

text \<open>
  POST /api/products of \<^verbatim>\<open>app.js\<close> (141-180) and \<^verbatim>\<open>part_003\<close>, for a body that is an object:
  the answer is 400 exactly when \<^verbatim>\<open>name\<close> or \<^verbatim>\<open>category\<close> is not a non-empty string or
  \<^verbatim>\<open>price\<close> is not a number, is NaN or is below zero; otherwise the one store call inserts
  the record with \<^verbatim>\<open>name\<close> and \<^verbatim>\<open>category\<close> trimmed, the price as given and the creation
  time.
\<close>

theorem post_product_app_create:
  "body req = JObj b \<longrightarrow>
   (status_of (sent (post_product_app e db req st)) = Some 400 \<longleftrightarrow>
      \<not> (\<exists>n c p. get_prop b ''name'' = JStr n \<and> n \<noteq> []
            \<and> get_prop b ''category'' = JStr c \<and> c \<noteq> []
            \<and> get_prop b ''price'' = JNum p \<and> p \<noteq> NaN \<and> \<not> num_lt p (Fin 0)))
   \<and> (\<forall>n c p. get_prop b ''name'' = JStr n \<and> n \<noteq> []
            \<and> get_prop b ''category'' = JStr c \<and> c \<noteq> []
            \<and> get_prop b ''price'' = JNum p \<and> p \<noteq> NaN \<and> \<not> num_lt p (Fin 0) \<longrightarrow>
         map fst (calls (post_product_app e db req st)) =
           [InsertOne productsCollection
              [(''name'', JStr (trim n)), (''price'', JNum p), (''category'', JStr (trim c)),
               (''createdAt'', JDate (now e))]])"
proof (intro impI conjI allI)
  assume b: "body req = JObj b"
  show "status_of (sent (post_product_app e db req st)) = Some 400 \<longleftrightarrow>
      \<not> (\<exists>n c p. get_prop b ''name'' = JStr n \<and> n \<noteq> []
            \<and> get_prop b ''category'' = JStr c \<and> c \<noteq> []
            \<and> get_prop b ''price'' = JNum p \<and> p \<noteq> NaN \<and> \<not> num_lt p (Fin 0))"
  proof (cases "\<exists>n c p. get_prop b ''name'' = JStr n \<and> n \<noteq> []
            \<and> get_prop b ''category'' = JStr c \<and> c \<noteq> []
            \<and> get_prop b ''price'' = JNum p \<and> p \<noteq> NaN \<and> \<not> num_lt p (Fin 0)")
    case True
    then obtain n c p where a: "get_prop b ''name'' = JStr n" "n \<noteq> []"
      "get_prop b ''category'' = JStr c" "c \<noteq> []"
      "get_prop b ''price'' = JNum p" "p \<noteq> NaN" "\<not> num_lt p (Fin 0)"
      by blast
    have "status_of (sent (post_product_app e db req st)) \<noteq> Some 400"
      unfolding post_product_app_accepts [OF b a]
      by (simp add: try_catch_def insertOne_step_def one_call_def
          split: option.split prod.split outcome.split)
    with True show ?thesis by simp
  next
    case False
    from post_product_app_rejects [OF b False, of e db st] False
    show ?thesis by simp
  qed
next
  fix n c p
  assume b: "body req = JObj b"
  assume "get_prop b ''name'' = JStr n \<and> n \<noteq> []
            \<and> get_prop b ''category'' = JStr c \<and> c \<noteq> []
            \<and> get_prop b ''price'' = JNum p \<and> p \<noteq> NaN \<and> \<not> num_lt p (Fin 0)"
  then have a: "get_prop b ''name'' = JStr n" "n \<noteq> []"
      "get_prop b ''category'' = JStr c" "c \<noteq> []"
      "get_prop b ''price'' = JNum p" "p \<noteq> NaN" "\<not> num_lt p (Fin 0)"
    by simp_all
  show "map fst (calls (post_product_app e db req st)) =
           [InsertOne productsCollection
              [(''name'', JStr (trim n)), (''price'', JNum p), (''category'', JStr (trim c)),
               (''createdAt'', JDate (now e))]]"
    unfolding post_product_app_accepts [OF b a]
    by (simp add: try_catch_def insertOne_step_def one_call_def
        split: option.split prod.split outcome.split)
qed

text \<open>
  The same at \<^verbatim>\<open>{ "name": " Pen ", "price": 1.5, "category": "Office" }\<close>.
\<close>

theorem post_product_app_create_witness:
  "get_prop [(''name'', JStr '' Pen ''), (''price'', JNum (Fin (3 / 2))),
             (''category'', JStr ''Office'')] ''name'' = JStr '' Pen ''
   \<and> map fst (calls (post_product_app env0 mem_api
        (request0\<lparr>body := JObj [(''name'', JStr '' Pen ''), (''price'', JNum (Fin (3 / 2))),
                                 (''category'', JStr ''Office'')]\<rparr>) mem_empty))
     = [InsertOne productsCollection
          [(''name'', JStr ''Pen''), (''price'', JNum (Fin (3 / 2))), (''category'', JStr ''Office''),
           (''createdAt'', JDate 1769126400000)]]"
proof -
  let ?b = "[(''name'', JStr '' Pen ''), (''price'', JNum (Fin (3 / 2))),
             (''category'', JStr ''Office'')]"
  let ?req = "request0\<lparr>body := JObj ?b\<rparr>"
  have b: "body ?req = JObj ?b"
    by simp
  have g: "get_prop ?b ''name'' = JStr '' Pen '' \<and> '' Pen '' \<noteq> []
     \<and> get_prop ?b ''category'' = JStr ''Office'' \<and> ''Office'' \<noteq> []
     \<and> get_prop ?b ''price'' = JNum (Fin (3 / 2)) \<and> Fin (3 / 2) \<noteq> NaN
     \<and> \<not> num_lt (Fin (3 / 2)) (Fin 0)"
    by (simp add: get_prop_def)
  have t: "trim '' Pen '' = ''Pen''" "trim ''Office'' = ''Office''" "now env0 = 1769126400000"
    by (simp_all add: trim_eval env0_def)
  from post_product_app_create
    [where req = ?req and b = ?b and e = env0 and db = mem_api and st = mem_empty,
      rule_format, OF b, THEN conjunct2, rule_format, OF g]
  show ?thesis using g by (simp add: t)
qed

end
